theory Spec2Isabelle
  imports Complex_Main "HOL-Library.Char_ord" "HOL-Library.List_Lexorder"
begin

section \<open>Data model\<close>

text \<open>
  The module \<^verbatim>\<open>load_data.py\<close> prepares three pandas tables (train, validation, test)
  for a text model. Exceptions of the Python code are values of an error type; a function
  that can raise returns \<open>error + 'a\<close>, with \<open>Inl\<close> for the exception.
\<close>

datatype error =
    KeyError | TypeError | ValueError | AssertionError | IndexError | InvalidIndexError

definition ebind :: "error + 'a \<Rightarrow> ('a \<Rightarrow> error + 'b) \<Rightarrow> error + 'b" where
  "ebind m f = (case m of Inl e \<Rightarrow> Inl e | Inr v \<Rightarrow> f v)"

text \<open>
  A cell of a table is a string, a number, or missing (pandas' NaN). Numbers are rationals:
  the rounding of floating-point arithmetic is not modelled. A row label is an integer or
  a string, as \<^verbatim>\<open>read_csv(..., index_col=0)\<close> produces them.
\<close>

datatype cell = Str string | Num rat | NaN

datatype label = LInt int | LStr string

text \<open>
  A table has an ordered list of column names and an ordered list of labelled rows; the
  cells of a row stand in the order of the column names.
\<close>

record table =
  columns :: "string list"
  rows :: "(label \<times> cell list) list"

definition index :: "table \<Rightarrow> label list" where
  "index df = map fst (rows df)"

definition values_of :: "table \<Rightarrow> cell list list" where
  "values_of df = map snd (rows df)"

section \<open>Text aggregation\<close>

text \<open>
  \<^verbatim>\<open>texts.astype('str')\<close>: a string stays as it is, a missing value reads \<^verbatim>\<open>nan\<close>, and
  a number is printed by Python's \<^verbatim>\<open>str\<close>, which is the parameter \<open>str\<close>.
  A number cell holds the value only, not whether pandas stores it as an integer or as a
  float, so \<open>str\<close> stands for the printing of the column at hand.
\<close>

fun astype_str :: "(rat \<Rightarrow> string) \<Rightarrow> cell \<Rightarrow> string" where
  "astype_str str (Str s) = s"
| "astype_str str (Num x) = str x"
| "astype_str str NaN = ''nan''"

text \<open>
  \<^verbatim>\<open>agg_text_columns_func(empty_row_values, replace_text, texts)\<close>: the loop over the
  stringified values of one row, appending to \<^verbatim>\<open>processed_texts\<close>.
\<close>

fun agg_text_loop :: "string list \<Rightarrow> string option \<Rightarrow> string list \<Rightarrow> string list" where
  "agg_text_loop empty_row_values replace_text [] = []"
| "agg_text_loop empty_row_values replace_text (text # texts) =
     (if text \<notin> set empty_row_values
      then text # agg_text_loop empty_row_values replace_text texts
      else (case replace_text of
              Some r \<Rightarrow> r # agg_text_loop empty_row_values replace_text texts
            | None \<Rightarrow> agg_text_loop empty_row_values replace_text texts))"

definition agg_text_columns_func ::
  "(rat \<Rightarrow> string) \<Rightarrow> string list \<Rightarrow> string option \<Rightarrow> cell list \<Rightarrow> string list" where
  "agg_text_columns_func str empty_row_values replace_text texts =
     agg_text_loop empty_row_values replace_text (map (astype_str str) texts)"

text \<open>Python's \<^verbatim>\<open>sep.join(xs)\<close>.\<close>

fun join :: "string \<Rightarrow> string list \<Rightarrow> string" where
  "join sep [] = []"
| "join sep [x] = x"
| "join sep (x # y # ys) = x @ sep @ join sep (y # ys)"

text \<open>The loop body of \<^verbatim>\<open>load_data\<close>: \<^verbatim>\<open>f' {sep_text_token_str} '.join(text)\<close>.\<close>

definition join_texts :: "string \<Rightarrow> string list \<Rightarrow> string" where
  "join_texts sep_text_token_str text = join ('' '' @ sep_text_token_str @ '' '') text"

section \<open>Column selection\<close>

text \<open>
  A column specification, as \<^verbatim>\<open>convert_to_func\<close> tells the Python values apart:
  \<^verbatim>\<open>None\<close>; a plain function (\<^verbatim>\<open>types.FunctionType\<close>: a \<^verbatim>\<open>def\<close> or a \<^verbatim>\<open>lambda\<close>);
  a callable object that is not a plain function (a \<^verbatim>\<open>functools.partial\<close>, a bound method,
  an instance with \<^verbatim>\<open>__call__\<close>); a list or a set of names, in its iteration order; and
  any other object that is not list-like (a number, a string).
\<close>

datatype colspec =
    NoneSpec
  | FuncSpec "table \<Rightarrow> string \<Rightarrow> bool"
  | CallableObj "table \<Rightarrow> string \<Rightarrow> bool"
  | Names "string list"
  | Other

fun convert_to_func :: "colspec \<Rightarrow> error + (table \<Rightarrow> string \<Rightarrow> bool)" where
  "convert_to_func NoneSpec = Inr (\<lambda>df x. False)"
| "convert_to_func (Names arg) = Inr (\<lambda>df x. x \<in> set arg)"
| "convert_to_func (CallableObj f) = Inl AssertionError"
| "convert_to_func Other = Inl AssertionError"
| "convert_to_func (FuncSpec arg) = Inr arg"

definition get_matching_cols :: "table \<Rightarrow> (table \<Rightarrow> string \<Rightarrow> bool) \<Rightarrow> string list" where
  "get_matching_cols df col_match_func = [c \<leftarrow> columns df. col_match_func df c]"

section \<open>Numerical features\<close>

definition cell_at :: "cell list \<Rightarrow> nat \<Rightarrow> cell" where
  "cell_at r j = (if j < length r then r ! j else NaN)"

definition column_values :: "table \<Rightarrow> nat \<Rightarrow> cell list" where
  "column_values df j = map (\<lambda>(l, r). cell_at r j) (rows df)"

definition is_str :: "cell \<Rightarrow> bool" where
  "is_str v = (case v of Str s \<Rightarrow> True | _ \<Rightarrow> False)"

definition numbers_of :: "cell list \<Rightarrow> rat list" where
  "numbers_of vs = concat (map (\<lambda>v. case v of Num x \<Rightarrow> [x] | _ \<Rightarrow> []) vs)"

text \<open>
  The median of the numbers present, as \<^verbatim>\<open>Series.median\<close> computes it with missing
  values skipped: the middle one of the sorted numbers, the mean of the two middle ones
  when their count is even, and NaN when there is none.
\<close>

definition median :: "rat list \<Rightarrow> cell" where
  "median xs =
     (let s = sort xs; n = length s in
      if n = 0 then NaN
      else if odd n then Num (s ! (n div 2))
      else Num ((s ! (n div 2 - 1) + s ! (n div 2)) / 2))"

text \<open>
  \<^verbatim>\<open>df[num_cols].median()\<close> has an entry for every numeric column; a column that holds a
  string has the dtype \<^verbatim>\<open>object\<close> and gets no entry.
\<close>

definition column_median :: "cell list \<Rightarrow> cell option" where
  "column_median vs = (if list_ex is_str vs then None else Some (median (numbers_of vs)))"

text \<open>
  \<^verbatim>\<open>fillna\<close> with the column's entry of the medians: a missing cell takes the median, any
  other cell is kept; a column with no entry is left as it is.
\<close>

definition fillna_cell :: "cell option \<Rightarrow> cell \<Rightarrow> cell" where
  "fillna_cell m v = (case m of None \<Rightarrow> v | Some x \<Rightarrow> if v = NaN then x else v)"

definition selected :: "table \<Rightarrow> string list \<Rightarrow> nat \<Rightarrow> bool" where
  "selected df cols j = (j < length (columns df) \<and> columns df ! j \<in> set cols)"

text \<open>
  \<^verbatim>\<open>df[num_cols].median()\<close>: the medians are computed once, one entry per column
  position; a column that is not selected has no entry.
\<close>

definition medians :: "table \<Rightarrow> string list \<Rightarrow> cell option list" where
  "medians df num_cols =
     map (\<lambda>j. if columns df ! j \<in> set num_cols then column_median (column_values df j) else None)
       [0..<length (columns df)]"

definition fillna :: "cell option list \<Rightarrow> cell list \<Rightarrow> cell list" where
  "fillna meds r =
     map (\<lambda>(j, v). if j < length meds then fillna_cell (meds ! j) v else v) (zip [0..<length r] r)"

text \<open>
  The assignment \<^verbatim>\<open>df[num_cols] = df[num_cols].fillna(df[num_cols].median())\<close>: the
  table that the caller's variable holds afterwards.
\<close>

definition fillna_median :: "table \<Rightarrow> string list \<Rightarrow> table" where
  "fillna_median df num_cols =
     (let meds = medians df num_cols
      in df\<lparr>rows := map (\<lambda>(l, r). (l, fillna meds r)) (rows df)\<rparr>)"

fun col_pos :: "string list \<Rightarrow> string \<Rightarrow> nat option" where
  "col_pos [] c = None"
| "col_pos (x # xs) c = (if x = c then Some 0 else map_option Suc (col_pos xs c))"

definition lookup_cell :: "string list \<Rightarrow> cell list \<Rightarrow> string \<Rightarrow> cell" where
  "lookup_cell cols r c = (case col_pos cols c of None \<Rightarrow> NaN | Some j \<Rightarrow> cell_at r j)"

text \<open>
  \<^verbatim>\<open>df[names].values\<close> for names of the table: one list of cells per row. The cells are
  those of the table; the conversion of the matrix to one common dtype, which pandas
  makes when the columns differ in dtype, is not modelled.
\<close>

definition values_named :: "table \<Rightarrow> string list \<Rightarrow> cell list list" where
  "values_named df names = map (\<lambda>(l, r). map (lookup_cell (columns df) r) names) (rows df)"

text \<open>
  \<^verbatim>\<open>load_num_feats\<close> changes the table it is given and returns the numerical matrix, or
  \<^verbatim>\<open>None\<close> when no column matches: the model returns the table after the call and the matrix.
\<close>

definition load_num_feats ::
  "table \<Rightarrow> (table \<Rightarrow> string \<Rightarrow> bool) \<Rightarrow> table \<times> cell list list option" where
  "load_num_feats df num_bool_func =
     (let num_cols = get_matching_cols df num_bool_func;
          df' = fillna_median df num_cols
      in (df', if length num_cols = 0 then None else Some (values_named df' num_cols)))"

section \<open>The collaborators\<close>

text \<open>
  What the module calls and does not define: Python's \<^verbatim>\<open>str\<close> of a number; the tokenizer,
  called with the texts of a split and \<^verbatim>\<open>max_length\<close>; the scikit-learn transformer chosen by
  the method name, with \<^verbatim>\<open>fit\<close> producing the fitted statistics and \<^verbatim>\<open>transform\<close> reading
  them; and the encoders of \<^verbatim>\<open>CategoricalFeatures\<close> for the schemes other than pass-through,
  which return the encoded matrix and the feature names. Each of them may raise.
\<close>

record ('st, 'enc) collaborators =
  py_str :: "rat \<Rightarrow> string"
  tokenizer :: "string list \<Rightarrow> nat option \<Rightarrow> error + 'enc"
  fit :: "string \<Rightarrow> cell list list \<Rightarrow> error + 'st"
  transform :: "'st \<Rightarrow> cell list list \<Rightarrow> error + cell list list"
  cat_encoder :: "table \<Rightarrow> colspec \<Rightarrow> string \<Rightarrow> error + (cell list list \<times> string list)"

text \<open>The calls made on the numerical transformer, in the order the code makes them.\<close>

datatype tcall = Fit "cell list list" | Transform "cell list list"

section \<open>Operations of pandas\<close>

text \<open>\<^verbatim>\<open>df[names]\<close>: the named columns in the order asked for; a missing name is a KeyError.\<close>

definition select_cols :: "table \<Rightarrow> string list \<Rightarrow> error + table" where
  "select_cols df names =
     (if set names \<subseteq> set (columns df)
      then Inr \<lparr>columns = names, rows = zip (index df) (values_named df names)\<rparr>
      else Inl KeyError)"

text \<open>\<^verbatim>\<open>df[name].values\<close>: the cells of one column; a missing name is a KeyError.\<close>

definition column_named :: "table \<Rightarrow> string \<Rightarrow> error + cell list" where
  "column_named df name =
     (if name \<in> set (columns df)
      then Inr (map (\<lambda>(l, r). lookup_cell (columns df) r name) (rows df))
      else Inl KeyError)"

definition first_occurrences :: "'a list \<Rightarrow> 'a list" where
  "first_occurrences xs = rev (remdups (rev xs))"

text \<open>
  \<^verbatim>\<open>pd.concat(dfs, axis=0)\<close>: the rows of the tables one after the other, each with its
  label; the columns are the union of the tables' columns in order of first appearance, and
  a row has NaN in a column its table does not have.
\<close>

definition concat_rows :: "table list \<Rightarrow> table" where
  "concat_rows dfs =
     (let cols = first_occurrences (concat (map columns dfs))
      in \<lparr>columns = cols,
          rows = concat (map (\<lambda>df. map (\<lambda>(l, r). (l, map (lookup_cell (columns df) r) cols))
                                      (rows df)) dfs)\<rparr>)"

text \<open>
  \<^verbatim>\<open>df.loc[keys]\<close> with a list of labels: for each key in turn, every row that carries the
  label, in the table's order; a key that no row carries is a KeyError.
\<close>

definition loc :: "table \<Rightarrow> label list \<Rightarrow> error + table" where
  "loc df keys =
     (if set keys \<subseteq> set (index df)
      then Inr (df\<lparr>rows := concat (map (\<lambda>k. filter (\<lambda>(l, r). l = k) (rows df)) keys)\<rparr>)
      else Inl KeyError)"

text \<open>
  The order in which the levels of a categorical column are sorted: numbers by value,
  strings by code point, numbers before strings.
\<close>

fun cell_le :: "cell \<Rightarrow> cell \<Rightarrow> bool" where
  "cell_le (Num a) (Num b) = (a \<le> b)"
| "cell_le (Str a) (Str b) = (a \<le> b)"
| "cell_le (Num a) (Str b) = True"
| "cell_le (Str a) (Num b) = False"
| "cell_le NaN v = (v = NaN)"
| "cell_le v NaN = True"

fun insort_cell :: "cell \<Rightarrow> cell list \<Rightarrow> cell list" where
  "insort_cell v [] = [v]"
| "insort_cell v (w # ws) = (if cell_le v w then v # w # ws else w # insort_cell v ws)"

definition levels_of :: "cell list \<Rightarrow> cell list" where
  "levels_of vs = foldr insort_cell (remdups [v \<leftarrow> vs. v \<noteq> NaN]) []"

text \<open>
  \<^verbatim>\<open>pd.get_dummies(data, columns=cs, dummy_na=True)\<close>. Each column of \<open>cs\<close> becomes
  one indicator column per level and one for NaN, named \<^verbatim>\<open>column_level\<close> and \<^verbatim>\<open>column_nan\<close>;
  the columns not in \<open>cs\<close> come first, unchanged, unless \<open>cs\<close> has as many entries as the
  table has columns, where pandas prepends nothing. Labels and row order are those of the table.
\<close>

definition dummy_levels :: "table \<Rightarrow> string \<Rightarrow> cell list" where
  "dummy_levels data c = levels_of (map (\<lambda>(l, r). lookup_cell (columns data) r c) (rows data)) @ [NaN]"

definition dummy_names :: "(rat \<Rightarrow> string) \<Rightarrow> table \<Rightarrow> string \<Rightarrow> string list" where
  "dummy_names str data c = map (\<lambda>lv. c @ ''_'' @ astype_str str lv) (dummy_levels data c)"

definition dummy_row :: "table \<Rightarrow> string \<Rightarrow> cell list \<Rightarrow> cell list" where
  "dummy_row data c r =
     map (\<lambda>lv. if lookup_cell (columns data) r c = lv then Num 1 else Num 0) (dummy_levels data c)"

definition get_dummies :: "(rat \<Rightarrow> string) \<Rightarrow> table \<Rightarrow> string list \<Rightarrow> error + table" where
  "get_dummies str data cs =
     (if set cs \<subseteq> set (columns data)
      then let keep = (length cs \<noteq> length (columns data)) in
        Inr \<lparr>columns = (if keep then [c \<leftarrow> columns data. c \<notin> set cs] else [])
                        @ concat (map (dummy_names str data) cs),
             rows = map (\<lambda>(l, r).
                      (l, (if keep then map snd (filter (\<lambda>(c, v). c \<notin> set cs) (zip (columns data) r))
                           else [])
                          @ concat (map (\<lambda>c. dummy_row data c r) cs))) (rows data)\<rparr>
      else Inl KeyError)"

text \<open>
  \<^verbatim>\<open>pd.DataFrame(vals, columns=names)\<close>: the rows are labelled 0, 1, 2, ...; a row whose
  width is not the number of names is a ValueError.
\<close>

definition DataFrame :: "cell list list \<Rightarrow> string list \<Rightarrow> error + table" where
  "DataFrame vals names =
     (if list_all (\<lambda>r. length r = length names) vals
      then Inr \<lparr>columns = names,
                rows = zip (map (\<lambda>i. LInt (int i)) [0..<length vals]) vals\<rparr>
      else Inl ValueError)"

text \<open>
  \<^verbatim>\<open>pd.concat([a, b], axis=1)\<close> joins the rows of the two tables by label. With equal
  indexes the rows are paired in place. Otherwise both indexes must be free of duplicates
  (pandas raises InvalidIndexError if not); the result has the union of the labels, the
  labels of \<open>a\<close> first, and NaN where a table has no row for a label.
\<close>

definition row_of :: "table \<Rightarrow> label \<Rightarrow> cell list" where
  "row_of df k =
     (case find (\<lambda>(l, r). l = k) (rows df) of
        Some (l, r) \<Rightarrow> r
      | None \<Rightarrow> replicate (length (columns df)) NaN)"

definition concat_axis1 :: "table \<Rightarrow> table \<Rightarrow> error + table" where
  "concat_axis1 a b =
     (if index a = index b
      then Inr \<lparr>columns = columns a @ columns b,
                rows = map (\<lambda>((l, r), (k, s)). (l, r @ s)) (zip (rows a) (rows b))\<rparr>
      else if distinct (index a) \<and> distinct (index b)
      then Inr \<lparr>columns = columns a @ columns b,
                rows = map (\<lambda>k. (k, row_of a k @ row_of b k))
                         (index a @ [k \<leftarrow> index b. k \<notin> set (index a)])\<rparr>
      else Inl InvalidIndexError)"

section \<open>Categorical features\<close>

text \<open>
  Modelled from the spec: the class \<^verbatim>\<open>CategoricalFeatures\<close> of \<^verbatim>\<open>encode_features.py\<close> is
  not among the sources. With the scheme none or absent, the raw columns are passed
  through unmodified and the feature names are the input columns. Every other scheme is
  left to the collaborator \<open>cat_encoder\<close>.
\<close>

definition CategoricalFeatures_fit_transform ::
  "('st, 'enc) collaborators \<Rightarrow> table \<Rightarrow> string list \<Rightarrow> string option
   \<Rightarrow> error + (cell list list \<times> string list)" where
  "CategoricalFeatures_fit_transform E df cat_cols encode_type =
     (case encode_type of
        None \<Rightarrow> ebind (select_cols df cat_cols) (\<lambda>t. Inr (values_of t, cat_cols))
      | Some s \<Rightarrow>
          if s = ''none''
          then ebind (select_cols df cat_cols) (\<lambda>t. Inr (values_of t, cat_cols))
          else cat_encoder E df (Names cat_cols) s)"

definition load_cat_feats ::
  "('st, 'enc) collaborators \<Rightarrow> table \<Rightarrow> (table \<Rightarrow> string \<Rightarrow> bool) \<Rightarrow> string option
   \<Rightarrow> error + cell list list option" where
  "load_cat_feats E df cat_bool_func encode_type =
     (let cat_cols = get_matching_cols df cat_bool_func in
      if length cat_cols = 0 then Inr None
      else ebind (CategoricalFeatures_fit_transform E df cat_cols encode_type)
             (\<lambda>(vals, names). Inr (Some vals)))"

text \<open>
  \<^verbatim>\<open>load_cat_and_num_feats\<close>: the categorical features are read first, then the numerical
  ones, which writes the imputed values into the table.
\<close>

definition load_cat_and_num_feats ::
  "('st, 'enc) collaborators \<Rightarrow> table \<Rightarrow> (table \<Rightarrow> string \<Rightarrow> bool)
   \<Rightarrow> (table \<Rightarrow> string \<Rightarrow> bool) \<Rightarrow> string option
   \<Rightarrow> error + (table \<times> cell list list option \<times> cell list list option)" where
  "load_cat_and_num_feats E df cat_bool_func num_bool_func enocde_type =
     ebind (load_cat_feats E df cat_bool_func enocde_type) (\<lambda>cat_feats.
       let (df', num_feats) = load_num_feats df num_bool_func
       in Inr (df', cat_feats, num_feats))"

definition normalize_numerical_feats ::
  "('st, 'enc) collaborators \<Rightarrow> cell list list option \<Rightarrow> 'st option
   \<Rightarrow> error + (cell list list option \<times> tcall list)" where
  "normalize_numerical_feats E numerical_feats transformer =
     (case numerical_feats of
        None \<Rightarrow> Inr (numerical_feats, [])
      | Some m \<Rightarrow>
          (case transformer of
             None \<Rightarrow> Inr (numerical_feats, [])
           | Some t \<Rightarrow> ebind (transform E t m) (\<lambda>m'. Inr (Some m', [Transform m]))))"

section \<open>The per-split pipeline\<close>

text \<open>
  The options that \<^verbatim>\<open>load_data_from_folder\<close> hands to \<^verbatim>\<open>load_data\<close> unchanged.
\<close>

record options =
  text_cols :: colspec
  label_col :: string
  label_list :: "string list option"
  numerical_cols :: colspec
  sep_text_token_str :: string
  empty_text_values :: "string list option"
  replace_empty_text :: "string option"
  max_token_length :: "nat option"
  debug :: bool

text \<open>The arguments with which \<^verbatim>\<open>TorchTextDataset\<close> is built: the feature bundle of a split.\<close>

record 'enc TorchTextDataset =
  ds_df :: table
  ds_encodings :: 'enc
  ds_cat_feats :: "cell list list option"
  ds_numerical_feats :: "cell list list option"
  ds_labels :: "cell list"
  ds_label_list :: "string list option"

text \<open>
  \<^verbatim>\<open>data_df[texts_cols].agg(agg_func, axis=1).tolist()\<close>: one list of surviving texts
  per row. On a table without rows pandas returns an empty series; on a table with rows
  and no text column it fails, since the result of the function on an empty row does not
  have the length of the index.
\<close>

definition agg_texts ::
  "(rat \<Rightarrow> string) \<Rightarrow> string list \<Rightarrow> string option \<Rightarrow> table \<Rightarrow> string list
   \<Rightarrow> error + string list list" where
  "agg_texts str empty_row_values replace_text data_df texts_cols =
     (if rows data_df = [] then Inr []
      else if texts_cols = [] then Inl ValueError
      else Inr (map (agg_text_columns_func str empty_row_values replace_text)
                  (values_named data_df texts_cols)))"

text \<open>
  \<^verbatim>\<open>load_data\<close>. The table of the result is the one the local variable \<^verbatim>\<open>data_df\<close> holds
  at the end: cut to 50 rows under \<^verbatim>\<open>debug\<close>, and with the imputed numerical columns.
  \<^verbatim>\<open>texts_list[0]\<close> is read for the printed example, an IndexError on an empty list. The
  calls made on the numerical transformer are returned beside the bundle.
\<close>

definition load_data ::
  "('st, 'enc) collaborators \<Rightarrow> table \<Rightarrow> options \<Rightarrow> colspec \<Rightarrow> string option \<Rightarrow> 'st option
   \<Rightarrow> error + ('enc TorchTextDataset \<times> tcall list)" where
  "load_data E data_df0 opts categorical_cols categorical_encode_type numerical_transformer =
     (let data_df1 = (if debug opts then data_df0\<lparr>rows := take 50 (rows data_df0)\<rparr> else data_df0);
          empty_values = (case empty_text_values opts of
                            None \<Rightarrow> [''nan'', ''None''] | Some vs \<Rightarrow> vs)
      in
      ebind (convert_to_func (text_cols opts)) (\<lambda>text_cols_func.
      ebind (convert_to_func categorical_cols) (\<lambda>categorical_cols_func.
      ebind (convert_to_func (numerical_cols opts)) (\<lambda>numerical_cols_func.
      ebind (load_cat_and_num_feats E data_df1 categorical_cols_func numerical_cols_func
               categorical_encode_type) (\<lambda>(data_df, categorical_feats, numerical_feats0).
      ebind (normalize_numerical_feats E numerical_feats0 numerical_transformer)
        (\<lambda>(numerical_feats, calls).
      ebind (agg_texts (py_str E) empty_values (replace_empty_text opts) data_df
               (get_matching_cols data_df text_cols_func)) (\<lambda>texts_list0.
      let texts_list = map (join_texts (sep_text_token_str opts)) texts_list0 in
      if texts_list = [] then Inl IndexError
      else
      ebind (tokenizer E texts_list (max_token_length opts)) (\<lambda>hf_model_text_input.
      ebind (column_named data_df (label_col opts)) (\<lambda>labels.
      Inr (\<lparr>ds_df = data_df, ds_encodings = hf_model_text_input,
            ds_cat_feats = categorical_feats, ds_numerical_feats = numerical_feats,
            ds_labels = labels, ds_label_list = label_list opts\<rparr>, calls))))))))))"

text \<open>
  \<^verbatim>\<open>load_data\<close> with the table beside the outcome: the table that the variable
  \<^verbatim>\<open>data_df\<close> holds when the function is left, by its return or by an exception. It is
  the argument, cut to 50 rows under \<^verbatim>\<open>debug\<close>, as long as a column specification is
  rejected (lines 148 to 150) or the categorical encoding fails (line 203), and the table
  with the imputed numerical columns once \<^verbatim>\<open>load_num_feats\<close> has run (line 204).
\<close>

definition load_data_st ::
  "('st, 'enc) collaborators \<Rightarrow> table \<Rightarrow> options \<Rightarrow> colspec \<Rightarrow> string option \<Rightarrow> 'st option
   \<Rightarrow> table \<times> (error + ('enc TorchTextDataset \<times> tcall list))" where
  "load_data_st E data_df0 opts categorical_cols categorical_encode_type numerical_transformer =
     (let data_df1 = (if debug opts then data_df0\<lparr>rows := take 50 (rows data_df0)\<rparr> else data_df0);
          empty_values = (case empty_text_values opts of
                            None \<Rightarrow> [''nan'', ''None''] | Some vs \<Rightarrow> vs)
      in
      case convert_to_func (text_cols opts) of
        Inl e \<Rightarrow> (data_df1, Inl e)
      | Inr text_cols_func \<Rightarrow>
      (case convert_to_func categorical_cols of
        Inl e \<Rightarrow> (data_df1, Inl e)
      | Inr categorical_cols_func \<Rightarrow>
      (case convert_to_func (numerical_cols opts) of
        Inl e \<Rightarrow> (data_df1, Inl e)
      | Inr numerical_cols_func \<Rightarrow>
      (case load_cat_feats E data_df1 categorical_cols_func categorical_encode_type of
        Inl e \<Rightarrow> (data_df1, Inl e)
      | Inr categorical_feats \<Rightarrow>
      (let (data_df, numerical_feats0) = load_num_feats data_df1 numerical_cols_func in
      (data_df,
       ebind (normalize_numerical_feats E numerical_feats0 numerical_transformer)
         (\<lambda>(numerical_feats, calls).
       ebind (agg_texts (py_str E) empty_values (replace_empty_text opts) data_df
                (get_matching_cols data_df text_cols_func)) (\<lambda>texts_list0.
       let texts_list = map (join_texts (sep_text_token_str opts)) texts_list0 in
       if texts_list = [] then Inl IndexError
       else
       ebind (tokenizer E texts_list (max_token_length opts)) (\<lambda>hf_model_text_input.
       ebind (column_named data_df (label_col opts)) (\<lambda>labels.
       Inr (\<lparr>ds_df = data_df, ds_encodings = hf_model_text_input,
             ds_cat_feats = categorical_feats, ds_numerical_feats = numerical_feats,
             ds_labels = labels, ds_label_list = label_list opts\<rparr>, calls)))))))))))"

section \<open>The orchestration of the three splits\<close>

text \<open>
  Lines 39 and 40 of \<^verbatim>\<open>load_data_from_folder\<close>: the tables that are present, train,
  validation, test in this order, are concatenated row-wise.
\<close>

definition union_table :: "table \<Rightarrow> table option \<Rightarrow> table \<Rightarrow> table" where
  "union_table train_df val_df test_df =
     concat_rows (concat (map (\<lambda>d. case d of None \<Rightarrow> [] | Some t \<Rightarrow> [t])
                     [Some train_df, val_df, Some test_df]))"

text \<open>
  Lines 41 to 51: the encoding is materialised on the union. The result is the encoded
  union and the new list of categorical columns. One-hot: \<^verbatim>\<open>get_dummies\<close> needs a
  list-like of names, and the comprehension that follows iterates over
  \<^verbatim>\<open>categorical_cols\<close>, so that anything but a list or set of names is a TypeError.
  Binary: the matrix of the encoder becomes a table with the labels 0, 1, 2, ... and is
  joined to the union by label.
\<close>

definition startswith :: "string \<Rightarrow> string \<Rightarrow> bool" where
  "startswith s p = (take (length p) s = p)"

definition encode_union ::
  "('st, 'enc) collaborators \<Rightarrow> table \<Rightarrow> colspec \<Rightarrow> string \<Rightarrow> error + (table \<times> colspec)" where
  "encode_union E data_df categorical_cols categorical_encode_type =
     (if categorical_encode_type = ''ohe''
      then (case categorical_cols of
              Names cs \<Rightarrow>
                ebind (get_dummies (py_str E) data_df cs) (\<lambda>data_df'.
                  Inr (data_df',
                       Names (concat (map (\<lambda>col. concat (map (\<lambda>old_col.
                                if startswith col old_col \<and> length col > length old_col
                                then [col] else []) cs)) (columns data_df')))))
            | _ \<Rightarrow> Inl TypeError)
      else
        ebind (cat_encoder E data_df categorical_cols ''binary'') (\<lambda>(vals, feat_names).
        ebind (DataFrame vals feat_names) (\<lambda>cat_df.
        ebind (concat_axis1 data_df cat_df) (\<lambda>data_df'.
          Inr (data_df', Names feat_names)))))"

text \<open>
  Lines 38 to 58: with the scheme one-hot or binary the union is encoded and split again
  by the labels of the original tables, and the scheme of the per-split pass becomes
  \<^verbatim>\<open>None\<close>; any other scheme leaves everything as it is.
\<close>

definition fit_categorical ::
  "('st, 'enc) collaborators \<Rightarrow> table \<Rightarrow> table option \<Rightarrow> table
   \<Rightarrow> colspec \<Rightarrow> string option
   \<Rightarrow> error + (table \<times> table option \<times> table \<times> colspec \<times> string option)" where
  "fit_categorical E train_df val_df test_df categorical_cols categorical_encode_type =
     (if categorical_encode_type = Some ''ohe'' \<or> categorical_encode_type = Some ''binary''
      then
        ebind (encode_union E (union_table train_df val_df test_df) categorical_cols
                 (case categorical_encode_type of Some s \<Rightarrow> s | None \<Rightarrow> []))
          (\<lambda>(data_df, categorical_cols').
        ebind (loc data_df (index train_df)) (\<lambda>train_df'.
        ebind (case val_df of
                 None \<Rightarrow> Inr None
               | Some v \<Rightarrow> ebind (loc data_df (index v)) (\<lambda>v'. Inr (Some v'))) (\<lambda>val_df'.
        ebind (loc data_df (index test_df)) (\<lambda>test_df'.
          Inr (train_df', val_df', test_df', categorical_cols', None)))))
      else Inr (train_df, val_df, test_df, categorical_cols, categorical_encode_type))"

text \<open>
  The columns of the union that the encoding of lines 41 to 51 leaves in place. With
  the one-hot scheme \<^verbatim>\<open>get_dummies\<close> puts the indicator columns in the place of the encoded
  columns, so the columns left are those that are not encoded (none at all when the
  encoded names are as many as the columns of the union); with the binary scheme the
  encoded columns are appended and every column of the union is left in place.
\<close>

definition retained :: "table \<Rightarrow> colspec \<Rightarrow> string \<Rightarrow> string \<Rightarrow> bool" where
  "retained data_df categorical_cols categorical_encode_type c =
     (c \<in> set (columns data_df) \<and>
      (if categorical_encode_type = ''ohe''
       then (case categorical_cols of
               Names cs \<Rightarrow> c \<notin> set cs \<and> length cs \<noteq> length (columns data_df)
             | _ \<Rightarrow> False)
       else True))"

text \<open>The cells of the column named \<open>c\<close>, one per row and in the order of the rows.\<close>

definition column_cells :: "table \<Rightarrow> string \<Rightarrow> cell list" where
  "column_cells df c = map (\<lambda>(l, r). lookup_cell (columns df) r c) (rows df)"

text \<open>
  Lines 60 to 73: the transformer of the requested method is created and fitted on the
  numerical matrix of the train table, which \<^verbatim>\<open>load_num_feats\<close> imputes in place; an
  unknown method is a ValueError, and so is fitting when no numerical column matches
  (scikit-learn rejects \<^verbatim>\<open>None\<close>).
\<close>

definition fit_numerical ::
  "('st, 'enc) collaborators \<Rightarrow> table \<Rightarrow> colspec \<Rightarrow> string
   \<Rightarrow> error + (table \<times> 'st option \<times> tcall list)" where
  "fit_numerical E train_df num_cols numerical_transformer_method =
     (if numerical_transformer_method \<noteq> ''none''
      then
        if numerical_transformer_method = ''yeo_johnson''
           \<or> numerical_transformer_method = ''box_cox''
           \<or> numerical_transformer_method = ''quantile_normal''
        then
          ebind (convert_to_func num_cols) (\<lambda>f.
            let (train_df', num_feats) = load_num_feats train_df f in
            (case num_feats of
               None \<Rightarrow> Inl ValueError
             | Some m \<Rightarrow>
                 ebind (fit E numerical_transformer_method m) (\<lambda>st.
                   Inr (train_df', Some st, [Fit m]))))
        else Inl ValueError
      else Inr (train_df, None, []))"

text \<open>
  The result of \<^verbatim>\<open>load_data_from_folder\<close>: the three datasets, with the transformer and
  the calls made on it. The three tables stand for the files the function reads; the
  validation table is \<^verbatim>\<open>None\<close> when \<^verbatim>\<open>val.csv\<close> does not exist.
\<close>

record ('st, 'enc) prepared =
  train_dataset :: "'enc TorchTextDataset"
  val_dataset :: "'enc TorchTextDataset option"
  test_dataset :: "'enc TorchTextDataset"
  numerical_transformer :: "'st option"
  transformer_calls :: "tcall list"

definition load_data_from_folder ::
  "('st, 'enc) collaborators \<Rightarrow> table \<Rightarrow> table option \<Rightarrow> table \<Rightarrow> options
   \<Rightarrow> colspec \<Rightarrow> string option \<Rightarrow> string \<Rightarrow> error + ('st, 'enc) prepared" where
  "load_data_from_folder E train_df0 val_df0 test_df0 opts categorical_cols0
       categorical_encode_type0 numerical_transformer_method =
     ebind (fit_categorical E train_df0 val_df0 test_df0 categorical_cols0 categorical_encode_type0)
       (\<lambda>(train_df1, val_df, test_df, categorical_cols, categorical_encode_type).
     ebind (fit_numerical E train_df1 (numerical_cols opts) numerical_transformer_method)
       (\<lambda>(train_df, transformer, calls0).
     ebind (load_data E train_df opts categorical_cols categorical_encode_type transformer)
       (\<lambda>(train_ds, calls1).
     ebind (load_data E test_df opts categorical_cols categorical_encode_type transformer)
       (\<lambda>(test_ds, calls2).
     ebind (case val_df of
              None \<Rightarrow> Inr (None, [])
            | Some v \<Rightarrow>
                ebind (load_data E v opts categorical_cols categorical_encode_type transformer)
                  (\<lambda>(val_ds, calls3). Inr (Some val_ds, calls3)))
       (\<lambda>(val_ds, calls3).
     Inr \<lparr>train_dataset = train_ds, val_dataset = val_ds, test_dataset = test_ds,
          numerical_transformer = transformer,
          transformer_calls = calls0 @ calls1 @ calls2 @ calls3\<rparr>)))))"

section \<open>Example inputs\<close>

text \<open>
  Collaborators for the examples: numbers print as \<^verbatim>\<open>num\<close>, the tokenizer returns the
  texts it is given, fitting stores the matrix it is given, transforming returns its
  input, and the binary encoder yields one column of zeros.
\<close>

definition example_collaborators :: "(cell list list, string list) collaborators" where
  "example_collaborators =
     \<lparr>py_str = (\<lambda>x. ''num''),
      tokenizer = (\<lambda>texts max_length. Inr texts),
      fit = (\<lambda>meth m. Inr m),
      transform = (\<lambda>st m. Inr m),
      cat_encoder = (\<lambda>data spec scheme. Inr (map (\<lambda>r. [Num 0]) (rows data), [''c_0'']))\<rparr>"

definition example_options :: options where
  "example_options =
     \<lparr>text_cols = Names [''t''], label_col = ''y'', label_list = None,
      numerical_cols = Names [''n''], sep_text_token_str = ''|'',
      empty_text_values = None, replace_empty_text = None, max_token_length = None,
      debug = False\<rparr>"

definition example_train :: table where
  "example_train =
     \<lparr>columns = [''t'', ''c'', ''n'', ''y''],
      rows = [(LInt 0, [Str ''hi'', Str ''a'', Num 1, Num 0]),
              (LInt 1, [Str ''yo'', Str ''b'', NaN, Num 1]),
              (LInt 2, [Str ''ok'', Str ''b'', Num 4, Num 1])]\<rparr>"

definition example_test :: table where
  "example_test =
     \<lparr>columns = [''t'', ''c'', ''n'', ''y''],
      rows = [(LInt 3, [Str ''te'', Str ''z'', Num 5, Num 0])]\<rparr>"

definition is_n :: "table \<Rightarrow> string \<Rightarrow> bool" where
  "is_n df x = (x \<in> set [''n''])"

text \<open>A test table whose only row carries the label 0, which the train table uses too.\<close>

definition overlapping_test :: table where
  "overlapping_test =
     \<lparr>columns = [''t'', ''c'', ''n'', ''y''],
      rows = [(LInt 0, [Str ''te'', Str ''z'', Num 100, Num 0])]\<rparr>"

text \<open>A train table of 51 rows, and collaborators whose fitted state is the row count.\<close>

definition long_train :: table where
  "long_train =
     \<lparr>columns = [''t'', ''n'', ''y''],
      rows = map (\<lambda>i. (LInt (int i), [Str ''hi'', Num (of_nat i), Num 0])) [0..<51]\<rparr>"

definition short_test :: table where
  "short_test =
     \<lparr>columns = [''t'', ''n'', ''y''],
      rows = [(LInt 100, [Str ''te'', Num 5, Num 0])]\<rparr>"

definition counting_collaborators :: "(nat, nat) collaborators" where
  "counting_collaborators =
     \<lparr>py_str = (\<lambda>x. ''num''),
      tokenizer = (\<lambda>texts max_length. Inr (length texts)),
      fit = (\<lambda>meth m. Inr (length m)),
      transform = (\<lambda>st m. Inr m),
      cat_encoder = (\<lambda>data spec scheme. Inl ValueError)\<rparr>"

text \<open>
  The tables after the one-hot encoding of the column \<^verbatim>\<open>c\<close> on the union and the split by
  label: for the example tables, and for the train table with the overlapping test table.
\<close>

definition example_train_ohe :: table where
  "example_train_ohe =
     \<lparr>columns = [''t'', ''n'', ''y'', ''c_a'', ''c_b'', ''c_z'', ''c_nan''],
      rows = [(LInt 0, [Str ''hi'', Num 1, Num 0, Num 1, Num 0, Num 0, Num 0]),
              (LInt 1, [Str ''yo'', NaN, Num 1, Num 0, Num 1, Num 0, Num 0]),
              (LInt 2, [Str ''ok'', Num 4, Num 1, Num 0, Num 1, Num 0, Num 0])]\<rparr>"

definition example_test_ohe :: table where
  "example_test_ohe =
     \<lparr>columns = [''t'', ''n'', ''y'', ''c_a'', ''c_b'', ''c_z'', ''c_nan''],
      rows = [(LInt 3, [Str ''te'', Num 5, Num 0, Num 0, Num 0, Num 1, Num 0])]\<rparr>"

definition overlapping_train_ohe :: table where
  "overlapping_train_ohe =
     \<lparr>columns = [''t'', ''n'', ''y'', ''c_a'', ''c_b'', ''c_z'', ''c_nan''],
      rows = [(LInt 0, [Str ''hi'', Num 1, Num 0, Num 1, Num 0, Num 0, Num 0]),
              (LInt 0, [Str ''te'', Num 100, Num 0, Num 0, Num 0, Num 1, Num 0]),
              (LInt 1, [Str ''yo'', NaN, Num 1, Num 0, Num 1, Num 0, Num 0]),
              (LInt 2, [Str ''ok'', Num 4, Num 1, Num 0, Num 1, Num 0, Num 0])]\<rparr>"

definition overlapping_test_ohe :: table where
  "overlapping_test_ohe =
     \<lparr>columns = [''t'', ''n'', ''y'', ''c_a'', ''c_b'', ''c_z'', ''c_nan''],
      rows = [(LInt 0, [Str ''hi'', Num 1, Num 0, Num 1, Num 0, Num 0, Num 0]),
              (LInt 0, [Str ''te'', Num 100, Num 0, Num 0, Num 0, Num 1, Num 0])]\<rparr>"

text \<open>The dataset that the example train table gives without a categorical scheme.\<close>

definition example_dataset :: "string list TorchTextDataset" where
  "example_dataset =
     \<lparr>ds_df = \<lparr>columns = [''t'', ''c'', ''n'', ''y''],
                rows = [(LInt 0, [Str ''hi'', Str ''a'', Num 1, Num 0]),
                        (LInt 1, [Str ''yo'', Str ''b'', Num (5 / 2), Num 1]),
                        (LInt 2, [Str ''ok'', Str ''b'', Num 4, Num 1])]\<rparr>,
      ds_encodings = [''hi'', ''yo'', ''ok''],
      ds_cat_feats = Some [[Str ''a''], [Str ''b''], [Str ''b'']],
      ds_numerical_feats = Some [[Num 1], [Num (5 / 2)], [Num 4]],
      ds_labels = [Num 0, Num 1, Num 1], ds_label_list = None\<rparr>"

text \<open>The result for the example tables with the one-hot scheme.\<close>

definition example_prepared_ohe :: "(cell list list, string list) prepared" where
  "example_prepared_ohe =
     \<lparr>train_dataset =
        \<lparr>ds_df = \<lparr>columns = [''t'', ''n'', ''y'', ''c_a'', ''c_b'', ''c_z'', ''c_nan''],
                   rows = [(LInt 0, [Str ''hi'', Num 1, Num 0, Num 1, Num 0, Num 0, Num 0]),
                           (LInt 1, [Str ''yo'', Num (5 / 2), Num 1, Num 0, Num 1, Num 0, Num 0]),
                           (LInt 2, [Str ''ok'', Num 4, Num 1, Num 0, Num 1, Num 0, Num 0])]\<rparr>,
         ds_encodings = [''hi'', ''yo'', ''ok''],
         ds_cat_feats = Some [[Num 1, Num 0, Num 0, Num 0], [Num 0, Num 1, Num 0, Num 0],
                              [Num 0, Num 1, Num 0, Num 0]],
         ds_numerical_feats = Some [[Num 1], [Num (5 / 2)], [Num 4]],
         ds_labels = [Num 0, Num 1, Num 1], ds_label_list = None\<rparr>,
      val_dataset = None,
      test_dataset =
        \<lparr>ds_df = example_test_ohe,
         ds_encodings = [''te''],
         ds_cat_feats = Some [[Num 0, Num 0, Num 1, Num 0]],
         ds_numerical_feats = Some [[Num 5]],
         ds_labels = [Num 0], ds_label_list = None\<rparr>,
      numerical_transformer = Some [[Num 1], [Num (5 / 2)], [Num 4]],
      transformer_calls = [Fit [[Num 1], [Num (5 / 2)], [Num 4]],
                           Transform [[Num 1], [Num (5 / 2)], [Num 4]],
                           Transform [[Num 5]]]\<rparr>"

section \<open>Properties\<close>

subsection \<open>Auxiliary facts\<close>

lemma ebind_Inl [simp]: "ebind (Inl e) f = Inl e"
  by (simp add: ebind_def)

lemma ebind_Inr [simp]: "ebind (Inr v) f = f v"
  by (simp add: ebind_def)

lemma ebind_eq_Inr: "ebind m f = Inr y \<longleftrightarrow> (\<exists>v. m = Inr v \<and> f v = Inr y)"
  by (cases m) simp_all

lemma col_pos_Some: "col_pos cols c = Some j \<Longrightarrow> j < length cols \<and> cols ! j = c"
proof (induction cols arbitrary: j)
  case Nil
  then show ?case by simp
next
  case (Cons x xs)
  then show ?case by (auto split: if_splits)
qed

lemma lookup_cell_pos:
  "col_pos cols c = Some j \<Longrightarrow> lookup_cell cols r c = cell_at r j"
  by (simp add: lookup_cell_def)

lemma fillna_medians:
  "fillna (medians df cs) r =
     map (\<lambda>(j, v). if selected df cs j
            then fillna_cell (column_median (column_values df j)) v else v) (zip [0..<length r] r)"
proof -
  have "(if j < length (medians df cs) then fillna_cell (medians df cs ! j) v else v)
        = (if selected df cs j then fillna_cell (column_median (column_values df j)) v else v)"
    for j v
    by (simp add: medians_def selected_def fillna_cell_def)
  then show ?thesis
    by (simp add: fillna_def)
qed

lemma rows_fillna_median:
  "rows (fillna_median df cs) =
     map (\<lambda>(l, r). (l, map (\<lambda>(j, v). if selected df cs j
            then fillna_cell (column_median (column_values df j)) v else v) (zip [0..<length r] r)))
       (rows df)"
  by (simp add: fillna_median_def Let_def fillna_medians)

lemma columns_fillna_median [simp]: "columns (fillna_median df cs) = columns df"
  by (simp add: fillna_median_def Let_def)

lemma index_fillna_median [simp]: "index (fillna_median df cs) = index df"
  by (simp add: fillna_median_def Let_def index_def case_prod_unfold comp_def)

lemma length_rows_fillna_median [simp]: "length (rows (fillna_median df cs)) = length (rows df)"
  by (simp add: fillna_median_def Let_def)

lemma cell_at_fillna_median:
  assumes "i < length (rows df)" and "j < length (snd (rows df ! i))"
  shows "cell_at (snd (rows (fillna_median df cs) ! i)) j =
           (if selected df cs j
            then fillna_cell (column_median (column_values df j)) (cell_at (snd (rows df ! i)) j)
            else cell_at (snd (rows df ! i)) j)"
proof -
  obtain l r where lr: "rows df ! i = (l, r)" by (cases "rows df ! i")
  with assms show ?thesis
    by (simp add: rows_fillna_median cell_at_def)
qed

lemma values_named_nth:
  assumes "i < length (rows df)" and "k < length names"
  shows "values_named df names ! i ! k = lookup_cell (columns df) (snd (rows df ! i)) (names ! k)"
  using assms by (simp add: values_named_def case_prod_unfold)

lemma load_data_InrD:
  assumes "load_data E df0 opts cats enc tr = Inr (ds, calls)"
  shows "\<exists>tf cf nf catf nums.
           convert_to_func (text_cols opts) = Inr tf
         \<and> convert_to_func cats = Inr cf
         \<and> convert_to_func (numerical_cols opts) = Inr nf
         \<and> load_cat_feats E (if debug opts then df0\<lparr>rows := take 50 (rows df0)\<rparr> else df0) cf enc = Inr catf
         \<and> normalize_numerical_feats E
               (snd (load_num_feats (if debug opts then df0\<lparr>rows := take 50 (rows df0)\<rparr> else df0) nf)) tr
             = Inr (nums, calls)
         \<and> ds_df ds = fst (load_num_feats (if debug opts then df0\<lparr>rows := take 50 (rows df0)\<rparr> else df0) nf)
         \<and> ds_cat_feats ds = catf
         \<and> ds_numerical_feats ds = nums
         \<and> rows (ds_df ds) \<noteq> []
         \<and> label_col opts \<in> set (columns (ds_df ds))
         \<and> ds_labels ds = map (\<lambda>(l, r). lookup_cell (columns (ds_df ds)) r (label_col opts)) (rows (ds_df ds))"
  using assms
  unfolding load_data_def Let_def load_cat_and_num_feats_def
  by (auto simp: ebind_eq_Inr column_named_def agg_texts_def case_prod_unfold split: if_splits)

lemma convert_to_func_malformed:
  assumes "bad \<noteq> NoneSpec" and "\<forall>g. bad \<noteq> FuncSpec g" and "\<forall>ns. bad \<noteq> Names ns"
  shows "convert_to_func bad = Inl AssertionError"
  using assms by (cases bad) simp_all

lemma convert_to_func_error: "convert_to_func spec = Inl e \<Longrightarrow> e = AssertionError"
  by (cases spec) simp_all

lemma load_data_debug:
  "load_data E df (opts\<lparr>debug := True\<rparr>) cats enc tr
     = load_data E (df\<lparr>rows := take 50 (rows df)\<rparr>) (opts\<lparr>debug := False\<rparr>) cats enc tr"
  by (simp add: load_data_def cong: if_cong)

lemma load_num_feats_fst: "fst (load_num_feats d f) = fillna_median d (get_matching_cols d f)"
  by (simp add: load_num_feats_def Let_def)

lemma load_num_feats_snd_length:
  "snd (load_num_feats d f) = Some m \<Longrightarrow> length m = length (rows d)"
  by (auto simp: load_num_feats_def Let_def values_named_def split: if_splits)

lemma normalize_calls:
  "normalize_numerical_feats E nums tr = Inr (nums', calls) \<Longrightarrow>
     calls = [] \<or> (\<exists>m. nums = Some m \<and> calls = [Transform m])"
  by (auto simp: normalize_numerical_feats_def ebind_eq_Inr split: option.splits)

lemma load_data_calls:
  assumes "load_data E d opts cats enc tr = Inr (ds, calls)"
  shows "\<exists>ms. calls = map Transform ms"
proof -
  from load_data_InrD [OF assms] obtain nums0 nums where
    "normalize_numerical_feats E nums0 tr = Inr (nums, calls)"
    by blast
  from normalize_calls [OF this] show ?thesis
  proof
    assume "calls = []"
    then have "calls = map Transform []" by simp
    then show ?thesis ..
  next
    assume "\<exists>m. nums0 = Some m \<and> calls = [Transform m]"
    then obtain m where "calls = map Transform [m]" by auto
    then show ?thesis ..
  qed
qed

lemma fit_numerical_InrD:
  assumes "fit_numerical E train_df spec meth = Inr (train_df', st, calls)"
    and "meth \<noteq> ''none''"
  shows "\<exists>f m s. convert_to_func spec = Inr f
           \<and> train_df' = fst (load_num_feats train_df f)
           \<and> snd (load_num_feats train_df f) = Some m
           \<and> fit E meth m = Inr s \<and> st = Some s \<and> calls = [Fit m]"
  using assms
  by (auto simp: fit_numerical_def ebind_eq_Inr case_prod_unfold Let_def
           split: if_splits option.splits)

lemma load_data_from_folder_InrD:
  assumes "load_data_from_folder E train_df val_df test_df opts cats enc meth = Inr p"
  shows "\<exists>train1 val1 test1 cats1 enc1 train2 c0 c1 c2 c3.
           fit_categorical E train_df val_df test_df cats enc = Inr (train1, val1, test1, cats1, enc1)
         \<and> fit_numerical E train1 (numerical_cols opts) meth = Inr (train2, numerical_transformer p, c0)
         \<and> load_data E train2 opts cats1 enc1 (numerical_transformer p) = Inr (train_dataset p, c1)
         \<and> load_data E test1 opts cats1 enc1 (numerical_transformer p) = Inr (test_dataset p, c2)
         \<and> (case val1 of
               None \<Rightarrow> val_dataset p = None \<and> c3 = []
             | Some v \<Rightarrow> \<exists>vd. load_data E v opts cats1 enc1 (numerical_transformer p) = Inr (vd, c3)
                              \<and> val_dataset p = Some vd)
         \<and> transformer_calls p = c0 @ c1 @ c2 @ c3"
  using assms
  unfolding load_data_from_folder_def
  by (auto simp: ebind_eq_Inr split: option.splits)

lemma fit_categorical_val_None:
  "fit_categorical E train_df None test_df cats enc = Inr (train1, val1, test1, cats1, enc1)
     \<Longrightarrow> val1 = None"
  by (auto simp: fit_categorical_def ebind_eq_Inr split: if_splits)

lemma union_table_None: "union_table train_df None test_df = concat_rows [train_df, test_df]"
  by (simp add: union_table_def)

lemma index_concat_rows: "index (concat_rows dfs) = concat (map index dfs)"
proof -
  have "index = (\<lambda>d. map fst (rows d))"
    by (simp add: fun_eq_iff index_def)
  have eq: "index = (\<lambda>d. map fst (rows d))" by fact
  show ?thesis
    unfolding eq
    by (simp add: concat_rows_def Let_def map_concat comp_def case_prod_unfold)
qed

lemma index_union_table:
  "index (union_table train_df val_df test_df) =
     index train_df @ (case val_df of None \<Rightarrow> [] | Some v \<Rightarrow> index v) @ index test_df"
  by (simp add: union_table_def index_concat_rows split: option.splits)

lemma get_dummies_index: "get_dummies str d cs = Inr d' \<Longrightarrow> index d' = index d"
  by (auto simp: get_dummies_def index_def Let_def comp_def case_prod_unfold split: if_splits)

lemma map_fst_zip_rows:
  "length xs = length ys \<Longrightarrow>
     map fst (map (\<lambda>((l, r), (k, s)). (l, r @ s)) (zip xs ys)) = map fst xs"
  by (induction xs ys rule: list_induct2) auto

lemma concat_axis1_index:
  assumes "concat_axis1 a b = Inr d'" and "distinct (index a)"
  shows "distinct (index d') \<and> set (index a) \<subseteq> set (index d')"
proof (cases "index a = index b")
  case True
  then have "length (rows a) = length (rows b)"
    by (metis index_def length_map)
  then have "map fst (map (\<lambda>((l, r), (k, s)). (l, r @ s)) (zip (rows a) (rows b))) = index a"
    by (simp only: map_fst_zip_rows index_def)
  moreover from assms(1) True
  have "rows d' = map (\<lambda>((l, r), (k, s)). (l, r @ s)) (zip (rows a) (rows b))"
    by (auto simp: concat_axis1_def)
  ultimately have "index d' = index a"
    by (simp only: index_def)
  with assms(2) show ?thesis by simp
next
  case False
  with assms have d: "distinct (index b)"
    and "index d' = index a @ [k \<leftarrow> index b. k \<notin> set (index a)]"
    by (auto simp: concat_axis1_def index_def comp_def split: if_splits)
  with assms(2) show ?thesis by auto
qed

lemma encode_union_index:
  assumes "encode_union E d cats s = Inr (d', cats')" and "distinct (index d)"
  shows "distinct (index d') \<and> set (index d) \<subseteq> set (index d')"
proof (cases "s = ''ohe''")
  case True
  with assms(1) obtain cs where "get_dummies (py_str E) d cs = Inr d'"
    by (auto simp: encode_union_def ebind_eq_Inr split: colspec.splits)
  from get_dummies_index [OF this] assms(2) show ?thesis by simp
next
  case False
  with assms(1) obtain cat_df where "concat_axis1 d cat_df = Inr d'"
    by (auto simp: encode_union_def ebind_eq_Inr)
  from concat_axis1_index [OF this assms(2)] show ?thesis .
qed

lemma filter_label_distinct:
  assumes "distinct (map fst xs)" and "k \<in> fst ` set xs"
  shows "filter (\<lambda>(l, r). l = k) xs = [(k, case find (\<lambda>(l, r). l = k) xs of Some (l, r) \<Rightarrow> r | None \<Rightarrow> dflt)]"
  using assms
proof (induction xs)
  case Nil
  then show ?case by simp
next
  case (Cons x xs)
  obtain l r where x: "x = (l, r)" by (cases x)
  show ?case
  proof (cases "l = k")
    case True
    with Cons.prems x have "k \<notin> fst ` set xs" by auto
    then have "filter (\<lambda>(l, r). l = k) xs = []"
      by (force simp: filter_empty_conv)
    with True x show ?thesis by simp
  next
    case False
    with Cons x show ?thesis by auto
  qed
qed

lemma loc_distinct:
  assumes "loc d keys = Inr t" and "distinct (index d)"
  shows "rows t = map (\<lambda>k. (k, row_of d k)) keys \<and> index t = keys \<and> columns t = columns d"
proof -
  from assms(1) have sub: "set keys \<subseteq> set (index d)"
    and t: "t = d\<lparr>rows := concat (map (\<lambda>k. filter (\<lambda>(l, r). l = k) (rows d)) keys)\<rparr>"
    by (auto simp: loc_def split: if_splits)
  have "\<And>k. k \<in> set keys \<Longrightarrow> filter (\<lambda>(l, r). l = k) (rows d) = [(k, row_of d k)]"
  proof -
    fix k assume "k \<in> set keys"
    with sub have "k \<in> fst ` set (rows d)" by (auto simp: index_def)
    from filter_label_distinct [OF assms(2) [unfolded index_def] this]
    show "filter (\<lambda>(l, r). l = k) (rows d) = [(k, row_of d k)]"
      by (simp add: row_of_def)
  qed
  then have "concat (map (\<lambda>k. filter (\<lambda>(l, r). l = k) (rows d)) keys) = map (\<lambda>k. (k, row_of d k)) keys"
    by (induction keys) simp_all
  with t show ?thesis
    by (simp add: index_def comp_def)
qed

lemma loc_columns: "loc d keys = Inr t \<Longrightarrow> columns t = columns d"
  by (auto simp: loc_def split: if_splits)

lemma fit_categorical_InrD:
  assumes "fit_categorical E train_df val_df test_df cats (Some s) = Inr (train1, val1, test1, cats1, enc1)"
    and "s = ''ohe'' \<or> s = ''binary''"
  shows "\<exists>data_df. encode_union E (union_table train_df val_df test_df) cats s = Inr (data_df, cats1)
           \<and> loc data_df (index train_df) = Inr train1
           \<and> (case val_df of None \<Rightarrow> val1 = None
               | Some v \<Rightarrow> \<exists>v1. loc data_df (index v) = Inr v1 \<and> val1 = Some v1)
           \<and> loc data_df (index test_df) = Inr test1
           \<and> enc1 = None"
  using assms
  by (auto simp: fit_categorical_def ebind_eq_Inr split: option.splits)

lemma fit_categorical_other:
  assumes "fit_categorical E train_df val_df test_df cats enc = Inr (train1, val1, test1, cats1, enc1)"
    and "enc \<noteq> Some ''ohe''" and "enc \<noteq> Some ''binary''"
  shows "train1 = train_df \<and> val1 = val_df \<and> test1 = test_df \<and> cats1 = cats \<and> enc1 = enc"
  using assms by (simp add: fit_categorical_def)

lemma encode_union_ohe_Names:
  "encode_union E d cats ''ohe'' = Inr (d', cats1) \<Longrightarrow>
     \<exists>cs. cats = Names cs
        \<and> cats1 = Names (concat (map (\<lambda>col. concat (map (\<lambda>old_col.
                     if startswith col old_col \<and> length col > length old_col
                     then [col] else []) cs)) (columns d')))"
  by (auto simp: encode_union_def ebind_eq_Inr split: colspec.splits)

lemma resplit_rows:
  assumes fc: "fit_categorical E train_df val_df test_df cats (Some s) = Inr (train1, val1, test1, cats1, enc1)"
    and s: "s = ''ohe'' \<or> s = ''binary''"
    and dist: "distinct (index train_df @ (case val_df of None \<Rightarrow> [] | Some v \<Rightarrow> index v) @ index test_df)"
  shows "\<exists>data_df. encode_union E (union_table train_df val_df test_df) cats s = Inr (data_df, cats1)
           \<and> rows train1 = map (\<lambda>k. (k, row_of data_df k)) (index train_df)
           \<and> map_option rows val1 = map_option (\<lambda>v. map (\<lambda>k. (k, row_of data_df k)) (index v)) val_df
           \<and> rows test1 = map (\<lambda>k. (k, row_of data_df k)) (index test_df)"
proof -
  from fit_categorical_InrD [OF fc s] obtain data_df where
    eu: "encode_union E (union_table train_df val_df test_df) cats s = Inr (data_df, cats1)"
    and tr: "loc data_df (index train_df) = Inr train1"
    and va: "case val_df of None \<Rightarrow> val1 = None
             | Some v \<Rightarrow> \<exists>v1. loc data_df (index v) = Inr v1 \<and> val1 = Some v1"
    and te: "loc data_df (index test_df) = Inr test1"
    by blast
  from dist have "distinct (index (union_table train_df val_df test_df))"
    by (simp only: index_union_table)
  from encode_union_index [OF eu this] have d: "distinct (index data_df)" by simp
  have "map_option rows val1 = map_option (\<lambda>v. map (\<lambda>k. (k, row_of data_df k)) (index v)) val_df"
  proof (cases val_df)
    case None
    with va show ?thesis by simp
  next
    case (Some v)
    with va obtain v1 where "loc data_df (index v) = Inr v1" and "val1 = Some v1" by auto
    with loc_distinct [OF _ d] Some show ?thesis by simp
  qed
  moreover have "rows train1 = map (\<lambda>k. (k, row_of data_df k)) (index train_df)"
    using loc_distinct [OF tr d] by simp
  moreover have "rows test1 = map (\<lambda>k. (k, row_of data_df k)) (index test_df)"
    using loc_distinct [OF te d] by simp
  ultimately show ?thesis
    using eu by (intro exI [of _ data_df]) simp
qed

lemma resplit_index:
  assumes fc: "fit_categorical E train_df val_df test_df cats (Some s) = Inr (train1, val1, test1, cats1, enc1)"
    and s: "s = ''ohe'' \<or> s = ''binary''"
    and dist: "distinct (index train_df @ (case val_df of None \<Rightarrow> [] | Some v \<Rightarrow> index v) @ index test_df)"
  shows "index train1 = index train_df \<and> map_option index val1 = map_option index val_df
         \<and> index test1 = index test_df"
proof -
  from resplit_rows [OF fc s dist] obtain data_df where
    tr: "rows train1 = map (\<lambda>k. (k, row_of data_df k)) (index train_df)"
    and va: "map_option rows val1 = map_option (\<lambda>v. map (\<lambda>k. (k, row_of data_df k)) (index v)) val_df"
    and te: "rows test1 = map (\<lambda>k. (k, row_of data_df k)) (index test_df)"
    by blast
  have "index train1 = index train_df"
    unfolding index_def [of train1] tr by (simp add: comp_def)
  moreover have "index test1 = index test_df"
    unfolding index_def [of test1] te by (simp add: comp_def)
  moreover have "map_option index val1 = map_option index val_df"
  proof (cases val_df)
    case None
    with va show ?thesis by simp
  next
    case (Some v)
    with va obtain v1 where v1: "val1 = Some v1"
      and r: "rows v1 = map (\<lambda>k. (k, row_of data_df k)) (index v)" by auto
    have "index v1 = index v"
      unfolding index_def [of v1] r by (simp add: comp_def)
    with v1 Some show ?thesis by simp
  qed
  ultimately show ?thesis by simp
qed

lemma fit_categorical_train_index:
  assumes fc: "fit_categorical E train_df val_df test_df cats enc = Inr (train1, val1, test1, cats1, enc1)"
    and dist: "distinct (index train_df @ (case val_df of None \<Rightarrow> [] | Some v \<Rightarrow> index v) @ index test_df)"
  shows "index train1 = index train_df"
proof (cases "enc = Some ''ohe'' \<or> enc = Some ''binary''")
  case True
  then obtain s where s: "enc = Some s" "s = ''ohe'' \<or> s = ''binary''" by auto
  from resplit_index [OF fc [unfolded s(1)] s(2) dist] show ?thesis by simp
next
  case False
  with fit_categorical_other [OF fc] show ?thesis by simp
qed

lemma load_data_succeeds:
  assumes tf: "convert_to_func (text_cols opts) = Inr tf"
    and cf: "convert_to_func cats = Inr cf"
    and nf: "convert_to_func (numerical_cols opts) = Inr nf"
    and d: "d = (if debug opts then df0\<lparr>rows := take 50 (rows df0)\<rparr> else df0)"
    and c: "load_cat_feats E d cf enc = Inr c"
    and n: "normalize_numerical_feats E (snd (load_num_feats d nf)) tr = Inr (n, calls)"
    and r: "rows d \<noteq> []"
    and t: "get_matching_cols (fst (load_num_feats d nf)) tf \<noteq> []"
    and k: "\<And>texts. tokenizer E texts (max_token_length opts) = Inr (tok texts)"
    and l: "label_col opts \<in> set (columns d)"
  shows "\<exists>ds. load_data E df0 opts cats enc tr = Inr (ds, calls)
            \<and> ds_df ds = fst (load_num_feats d nf) \<and> ds_numerical_feats ds = n"
proof -
  obtain d' nums where ln: "load_num_feats d nf = (d', nums)"
    by (cases "load_num_feats d nf")
  have d': "d' = fillna_median d (get_matching_cols d nf)"
    using ln by (auto simp: load_num_feats_def Let_def)
  have r': "rows d' \<noteq> []" using r by (simp add: d' fillna_median_def Let_def)
  have l': "label_col opts \<in> set (columns d')" using l by (simp add: d')
  show ?thesis
    using tf cf nf c n t r' l' k ln d
    by (simp add: load_data_def Let_def load_cat_and_num_feats_def agg_texts_def
         column_named_def values_named_def)
qed

lemma columns_load_num_feats [simp]: "columns (fst (load_num_feats d f)) = columns d"
  by (simp add: load_num_feats_fst)

lemma length_rows_load_num_feats [simp]:
  "length (rows (fst (load_num_feats d f))) = length (rows d)"
  by (simp add: load_num_feats_fst)

lemma load_num_feats_Some:
  "get_matching_cols d f \<noteq> [] \<Longrightarrow> \<exists>m. snd (load_num_feats d f) = Some m \<and> length m = length (rows d)"
  by (simp add: load_num_feats_def Let_def values_named_def)

lemma load_cat_feats_passthrough_length:
  assumes "load_cat_feats E d cf enc = Inr (Some m)" and "enc = None \<or> enc = Some ''none''"
  shows "length m = length (rows d)"
  using assms
  by (auto simp: load_cat_feats_def Let_def CategoricalFeatures_fit_transform_def select_cols_def
        values_of_def values_named_def index_def ebind_eq_Inr split: if_splits)

lemma normalize_None:
  "normalize_numerical_feats E nums None = Inr (nums', calls) \<Longrightarrow> nums' = nums"
  by (auto simp: normalize_numerical_feats_def split: option.splits)

subsection \<open>The examples evaluated\<close>

lemma example_fit_categorical:
  "fit_categorical example_collaborators example_train None example_test (Names [''c'']) (Some ''ohe'')
     = Inr (example_train_ohe, None, example_test_ohe, Names [''c_a'', ''c_b'', ''c_z'', ''c_nan''], None)"
  by (simp add: fit_categorical_def encode_union_def union_table_def concat_rows_def
        first_occurrences_def example_train_def example_test_def overlapping_test_def
        example_collaborators_def get_dummies_def dummy_names_def dummy_row_def dummy_levels_def
        levels_of_def lookup_cell_def cell_at_def loc_def index_def startswith_def
        example_train_ohe_def example_test_ohe_def overlapping_train_ohe_def
        overlapping_test_ohe_def)

lemma overlapping_fit_categorical:
  "fit_categorical example_collaborators example_train None overlapping_test (Names [''c'']) (Some ''ohe'')
     = Inr (overlapping_train_ohe, None, overlapping_test_ohe, Names [''c_a'', ''c_b'', ''c_z'', ''c_nan''], None)"
  by (simp add: fit_categorical_def encode_union_def union_table_def concat_rows_def
        first_occurrences_def example_train_def example_test_def overlapping_test_def
        example_collaborators_def get_dummies_def dummy_names_def dummy_row_def dummy_levels_def
        levels_of_def lookup_cell_def cell_at_def loc_def index_def startswith_def
        example_train_ohe_def example_test_ohe_def overlapping_train_ohe_def
        overlapping_test_ohe_def)

lemma example_load_data:
  "load_data example_collaborators example_train example_options (Names [''c'']) None None
     = Inr (example_dataset, [])"
  by code_simp

lemma long_train_length: "length (rows long_train) = 51"
  by (simp add: long_train_def)

lemma long_train_columns: "columns long_train = [''t'', ''n'', ''y'']"
  by (simp add: long_train_def)

lemma short_test_load_data:
  "load_data counting_collaborators short_test (example_options\<lparr>debug := True\<rparr>) NoneSpec None (Some 51)
     = Inr (\<lparr>ds_df = short_test, ds_encodings = 1, ds_cat_feats = None,
              ds_numerical_feats = Some [[Num 5]], ds_labels = [Num 0], ds_label_list = None\<rparr>,
            [Transform [[Num 5]]])"
  by code_simp

lemma long_train_fit_numerical:
  "\<exists>m. fit_numerical counting_collaborators long_train (Names [''n'']) ''quantile_normal''
         = Inr (fst (load_num_feats long_train (\<lambda>df x. x \<in> set [''n''])), Some 51, [Fit m])
       \<and> length m = 51"
proof -
  let ?f = "\<lambda>(df::table) x. x \<in> set [''n'']"
  have "get_matching_cols long_train ?f \<noteq> []"
    by (simp add: get_matching_cols_def long_train_columns)
  from load_num_feats_Some [OF this] obtain m where
    m: "snd (load_num_feats long_train ?f) = Some m" and len: "length m = 51"
    by (auto simp: long_train_length)
  have "fit_numerical counting_collaborators long_train (Names [''n'']) ''quantile_normal''
         = Inr (fst (load_num_feats long_train ?f), Some 51, [Fit m])"
    using m len by (simp add: fit_numerical_def counting_collaborators_def case_prod_unfold)
  with len show ?thesis by blast
qed

lemma long_train_debug_load_data:
  assumes "columns d0 = [''t'', ''n'', ''y'']" and "length (rows d0) = 51"
  shows "\<exists>ds calls. load_data counting_collaborators d0 (example_options\<lparr>debug := True\<rparr>)
                       NoneSpec None (Some 51) = Inr (ds, calls)
            \<and> length (rows (ds_df ds)) = 50"
proof -
  let ?opts = "example_options\<lparr>debug := True\<rparr>"
  let ?d = "d0\<lparr>rows := take 50 (rows d0)\<rparr>"
  let ?nf = "\<lambda>(df::table) x. x \<in> set [''n'']"
  let ?tf = "\<lambda>(df::table) x. x \<in> set [''t'']"
  have tf: "convert_to_func (text_cols ?opts) = Inr ?tf"
    and nf: "convert_to_func (numerical_cols ?opts) = Inr ?nf"
    by (simp_all add: example_options_def)
  have cf: "convert_to_func NoneSpec = Inr (\<lambda>df x. False)" by simp
  have d: "?d = (if debug ?opts then d0\<lparr>rows := take 50 (rows d0)\<rparr> else d0)" by simp
  have c: "load_cat_feats counting_collaborators ?d (\<lambda>df x. False) None = Inr None"
    by (simp add: load_cat_feats_def get_matching_cols_def)
  have "get_matching_cols ?d ?nf \<noteq> []"
    by (simp add: get_matching_cols_def assms)
  from load_num_feats_Some [OF this] obtain m where
    m: "snd (load_num_feats ?d ?nf) = Some m" by blast
  have n: "normalize_numerical_feats counting_collaborators (snd (load_num_feats ?d ?nf)) (Some 51)
             = Inr (Some m, [Transform m])"
    using m by (simp add: normalize_numerical_feats_def counting_collaborators_def)
  have r: "rows ?d \<noteq> []"
    using assms(2) by (auto simp: take_eq_Nil)
  have t: "get_matching_cols (fst (load_num_feats ?d ?nf)) ?tf \<noteq> []"
    by (simp add: get_matching_cols_def assms)
  have k: "\<And>texts. tokenizer counting_collaborators texts (max_token_length ?opts) = Inr (length texts)"
    by (simp add: counting_collaborators_def)
  have l: "label_col ?opts \<in> set (columns ?d)"
    by (simp add: example_options_def assms)
  from load_data_succeeds [OF tf cf nf d c n r t k l] obtain ds where
    "load_data counting_collaborators d0 ?opts NoneSpec None (Some 51) = Inr (ds, [Transform m])"
    and "ds_df ds = fst (load_num_feats ?d ?nf)"
    by blast
  moreover from this have "length (rows (ds_df ds)) = 50"
    using assms(2) by simp
  ultimately show ?thesis by blast
qed

subsection \<open>Cells across the union and the split\<close>

lemma lookup_cell_Nil [simp]: "lookup_cell [] r c = NaN"
  by (simp add: lookup_cell_def)

lemma lookup_cell_Cons [simp]:
  "lookup_cell (x # xs) (v # vs) c = (if x = c then v else lookup_cell xs vs c)"
  by (simp add: lookup_cell_def cell_at_def split: option.splits)

lemma lookup_cell_map: "c \<in> set cols \<Longrightarrow> lookup_cell cols (map f cols) c = f c"
  by (induction cols) auto

lemma col_pos_append: "c \<in> set xs \<Longrightarrow> col_pos (xs @ ys) c = col_pos xs c"
  by (induction xs) auto

lemma col_pos_in_set: "c \<in> set xs \<Longrightarrow> \<exists>j. col_pos xs c = Some j"
  by (induction xs) auto

lemma lookup_cell_append:
  "length r = length xs \<Longrightarrow> c \<in> set xs \<Longrightarrow> lookup_cell (xs @ ys) (r @ s) c = lookup_cell xs r c"
  by (induction r xs rule: list_induct2) auto

lemma length_filter_zip:
  "length r = length xs \<Longrightarrow>
     length (filter (\<lambda>(x, v). P x) (zip xs r)) = length (filter P xs)"
  by (induction r xs rule: list_induct2) auto

lemma lookup_cell_filter:
  "length r = length xs \<Longrightarrow> c \<in> set xs \<Longrightarrow> P c \<Longrightarrow>
     lookup_cell (filter P xs) (map snd (filter (\<lambda>(x, v). P x) (zip xs r))) c = lookup_cell xs r c"
  by (induction r xs rule: list_induct2) auto

lemma set_first_occurrences [simp]: "set (first_occurrences xs) = set xs"
  by (simp add: first_occurrences_def)

lemma columns_concat_rows: "columns (concat_rows dfs) = first_occurrences (concat (map columns dfs))"
  by (simp add: concat_rows_def Let_def)

lemma concat_rows_member:
  assumes "S \<in> set dfs" and "i < length (rows S)"
  shows "(fst (rows S ! i),
          map (lookup_cell (columns S) (snd (rows S ! i))) (columns (concat_rows dfs)))
         \<in> set (rows (concat_rows dfs))"
proof -
  obtain l r where lr: "rows S ! i = (l, r)" by (cases "rows S ! i")
  with assms(2) have "(l, r) \<in> set (rows S)"
    by (metis nth_mem)
  with assms(1) lr show ?thesis
    by (force simp: concat_rows_def Let_def)
qed

lemma row_of_distinct:
  assumes "distinct (index d)" and "(k, r) \<in> set (rows d)"
  shows "row_of d k = r"
proof -
  have "find (\<lambda>(l, r). l = k) xs = Some (k, r)"
    if "distinct (map fst xs)" and "(k, r) \<in> set xs" for xs
    using that by (induction xs) (auto simp: image_iff)
  from this [OF assms(1) [unfolded index_def] assms(2)] show ?thesis
    by (simp add: row_of_def)
qed

lemma get_dummies_row:
  assumes gd: "get_dummies str U cs = Inr D"
    and kr: "(k, r) \<in> set (rows U)"
    and len: "length r = length (columns U)"
    and c: "c \<in> set (columns U)" "c \<notin> set cs"
    and keep: "length cs \<noteq> length (columns U)"
  shows "\<exists>r'. (k, r') \<in> set (rows D)
            \<and> lookup_cell (columns D) r' c = lookup_cell (columns U) r c
            \<and> (\<forall>j. col_pos (columns D) c = Some j \<longrightarrow> j < length r')"
proof -
  let ?P = "\<lambda>x. x \<notin> set cs"
  let ?kept = "map snd (filter (\<lambda>(x, v). x \<notin> set cs) (zip (columns U) r))"
  let ?dums = "concat (map (\<lambda>c. dummy_row U c r) cs)"
  let ?names = "concat (map (dummy_names str U) cs)"
  from gd keep have cols: "columns D = filter ?P (columns U) @ ?names"
    and rws: "rows D = map (\<lambda>(l, r). (l,
                 map snd (filter (\<lambda>(x, v). x \<notin> set cs) (zip (columns U) r))
                 @ concat (map (\<lambda>c. dummy_row U c r) cs))) (rows U)"
    by (auto simp: get_dummies_def Let_def split: if_splits)
  from kr have mem: "(k, ?kept @ ?dums) \<in> set (rows D)"
    unfolding rws by force
  have lk: "length ?kept = length (filter ?P (columns U))"
    using length_filter_zip [OF len, of ?P] by simp
  have cin: "c \<in> set (filter ?P (columns U))"
    using c by simp
  have "lookup_cell (columns D) (?kept @ ?dums) c = lookup_cell (filter ?P (columns U)) ?kept c"
    unfolding cols using lookup_cell_append [OF lk cin] .
  also have "\<dots> = lookup_cell (columns U) r c"
    using lookup_cell_filter [OF len c(1), of ?P] c(2) by simp
  finally have val: "lookup_cell (columns D) (?kept @ ?dums) c = lookup_cell (columns U) r c" .
  have pos: "\<forall>j. col_pos (columns D) c = Some j \<longrightarrow> j < length (?kept @ ?dums)"
  proof (intro allI impI)
    fix j assume "col_pos (columns D) c = Some j"
    then have "col_pos (filter ?P (columns U)) c = Some j"
      unfolding cols using col_pos_append [OF cin] by simp
    from col_pos_Some [OF this] lk show "j < length (?kept @ ?dums)"
      by simp
  qed
  from mem val pos show ?thesis by blast
qed

lemma zip_rows_member:
  assumes "length xs = length ys" and "(k, r) \<in> set xs"
  shows "\<exists>s. (k, r @ s) \<in> set (map (\<lambda>((l, r), (k, s)). (l, r @ s)) (zip xs ys))"
  using assms
proof (induction xs ys rule: list_induct2)
  case Nil
  then show ?case by simp
next
  case (Cons x xs y ys)
  then show ?case by (cases y) auto
qed

lemma concat_axis1_row:
  assumes ca: "concat_axis1 U b = Inr D"
    and dist: "distinct (index U)"
    and kr: "(k, r) \<in> set (rows U)"
    and len: "length r = length (columns U)"
    and c: "c \<in> set (columns U)"
  shows "\<exists>r'. (k, r') \<in> set (rows D)
            \<and> lookup_cell (columns D) r' c = lookup_cell (columns U) r c
            \<and> (\<forall>j. col_pos (columns D) c = Some j \<longrightarrow> j < length r')"
proof -
  have cols: "columns D = columns U @ columns b"
    using ca by (auto simp: concat_axis1_def split: if_splits)
  have "\<exists>s. (k, r @ s) \<in> set (rows D)"
  proof (cases "index U = index b")
    case True
    then have "length (rows U) = length (rows b)"
      by (metis index_def length_map)
    from zip_rows_member [OF this kr] obtain s0 where
      "(k, r @ s0) \<in> set (map (\<lambda>((l, r), (k, s)). (l, r @ s)) (zip (rows U) (rows b)))" ..
    moreover from ca True
    have "rows D = map (\<lambda>((l, r), (k, s)). (l, r @ s)) (zip (rows U) (rows b))"
      by (auto simp: concat_axis1_def)
    ultimately have "(k, r @ s0) \<in> set (rows D)" by simp
    then show ?thesis ..
  next
    case False
    with ca have rws: "rows D = map (\<lambda>k. (k, row_of U k @ row_of b k))
                         (index U @ [k \<leftarrow> index b. k \<notin> set (index U)])"
      by (auto simp: concat_axis1_def split: if_splits)
    from kr have "k \<in> set (index U)"
      by (force simp: index_def)
    then have "(k, row_of U k @ row_of b k) \<in> set (rows D)"
      unfolding rws by auto
    with row_of_distinct [OF dist kr] show ?thesis by auto
  qed
  then obtain s where mem: "(k, r @ s) \<in> set (rows D)" ..
  have val: "lookup_cell (columns D) (r @ s) c = lookup_cell (columns U) r c"
    unfolding cols using lookup_cell_append [OF len c] .
  have pos: "\<forall>j. col_pos (columns D) c = Some j \<longrightarrow> j < length (r @ s)"
  proof (intro allI impI)
    fix j assume "col_pos (columns D) c = Some j"
    then have "col_pos (columns U) c = Some j"
      unfolding cols using col_pos_append [OF c] by simp
    from col_pos_Some [OF this] len show "j < length (r @ s)"
      by simp
  qed
  from mem val pos show ?thesis by blast
qed

lemma encode_union_row:
  assumes eu: "encode_union E U cats s = Inr (D, cats1)"
    and dist: "distinct (index U)"
    and kr: "(k, r) \<in> set (rows U)"
    and len: "length r = length (columns U)"
    and ret: "retained U cats s c"
  shows "lookup_cell (columns D) (row_of D k) c = lookup_cell (columns U) r c
         \<and> (\<forall>j. col_pos (columns D) c = Some j \<longrightarrow> j < length (row_of D k))"
proof -
  have "\<exists>r'. (k, r') \<in> set (rows D)
            \<and> lookup_cell (columns D) r' c = lookup_cell (columns U) r c
            \<and> (\<forall>j. col_pos (columns D) c = Some j \<longrightarrow> j < length r')"
  proof (cases "s = ''ohe''")
    case True
    with eu obtain cs where cs: "cats = Names cs" and gd: "get_dummies (py_str E) U cs = Inr D"
      by (auto simp: encode_union_def ebind_eq_Inr split: colspec.splits)
    from ret True cs have "c \<in> set (columns U)" "c \<notin> set cs" "length cs \<noteq> length (columns U)"
      by (simp_all add: retained_def)
    from get_dummies_row [OF gd kr len this] show ?thesis .
  next
    case False
    with eu obtain cat_df where ca: "concat_axis1 U cat_df = Inr D"
      by (auto simp: encode_union_def ebind_eq_Inr)
    from ret have "c \<in> set (columns U)"
      by (simp add: retained_def)
    from concat_axis1_row [OF ca dist kr len this] show ?thesis .
  qed
  then obtain r' where mem: "(k, r') \<in> set (rows D)"
    and val: "lookup_cell (columns D) r' c = lookup_cell (columns U) r c"
    and pos: "\<forall>j. col_pos (columns D) c = Some j \<longrightarrow> j < length r'"
    by blast
  from encode_union_index [OF eu dist] have "distinct (index D)" by simp
  from row_of_distinct [OF this mem] val pos show ?thesis by simp
qed

lemma resplit_cell:
  assumes eu: "encode_union E (concat_rows dfs) cats s = Inr (D, cats1)"
    and dist: "distinct (index (concat_rows dfs))"
    and S: "S \<in> set dfs"
    and lc: "loc D (index S) = Inr S'"
    and i: "i < length (rows S)"
    and ret: "retained (concat_rows dfs) cats s c"
  shows "lookup_cell (columns S') (snd (rows S' ! i)) c = lookup_cell (columns S) (snd (rows S ! i)) c
         \<and> (\<forall>j. col_pos (columns S') c = Some j \<longrightarrow> j < length (snd (rows S' ! i)))"
proof -
  let ?U = "concat_rows dfs"
  let ?k = "fst (rows S ! i)"
  let ?r = "map (lookup_cell (columns S) (snd (rows S ! i))) (columns ?U)"
  have mem: "(?k, ?r) \<in> set (rows ?U)"
    by (rule concat_rows_member [OF S i])
  have len: "length ?r = length (columns ?U)" by simp
  from encode_union_row [OF eu dist mem len ret]
  have val: "lookup_cell (columns D) (row_of D ?k) c = lookup_cell (columns ?U) ?r c"
    and pos: "\<forall>j. col_pos (columns D) c = Some j \<longrightarrow> j < length (row_of D ?k)"
    by simp_all
  from ret have "c \<in> set (columns ?U)" by (simp add: retained_def)
  then have orig: "lookup_cell (columns ?U) ?r c = lookup_cell (columns S) (snd (rows S ! i)) c"
    by (rule lookup_cell_map)
  from encode_union_index [OF eu dist] have dD: "distinct (index D)" by simp
  from loc_distinct [OF lc dD] have rws: "rows S' = map (\<lambda>k. (k, row_of D k)) (index S)"
    and cols: "columns S' = columns D"
    by simp_all
  have "snd (rows S' ! i) = row_of D ?k"
    using i by (simp add: rws index_def)
  with val pos orig cols show ?thesis by simp
qed

lemma union_table_concat:
  "union_table train_df val_df test_df
     = concat_rows (train_df # (case val_df of None \<Rightarrow> [] | Some v \<Rightarrow> [v]) @ [test_df])"
  by (simp add: union_table_def split: option.splits)

lemma resplit_split_cell:
  assumes fc: "fit_categorical E train_df val_df test_df cats (Some s) = Inr (train1, val1, test1, cats1, enc1)"
    and s: "s = ''ohe'' \<or> s = ''binary''"
    and dist: "distinct (index train_df @ (case val_df of None \<Rightarrow> [] | Some v \<Rightarrow> index v) @ index test_df)"
    and pair: "(S, S') = (train_df, train1) \<or> (S, S') = (test_df, test1)
               \<or> (val_df = Some S \<and> val1 = Some S')"
    and i: "i < length (rows S)"
    and ret: "retained (union_table train_df val_df test_df) cats s c"
  shows "lookup_cell (columns S') (snd (rows S' ! i)) c = lookup_cell (columns S) (snd (rows S ! i)) c
         \<and> (\<forall>j. col_pos (columns S') c = Some j \<longrightarrow> j < length (snd (rows S' ! i)))"
proof -
  let ?dfs = "train_df # (case val_df of None \<Rightarrow> [] | Some v \<Rightarrow> [v]) @ [test_df]"
  from fit_categorical_InrD [OF fc s] obtain data_df where
    eu: "encode_union E (union_table train_df val_df test_df) cats s = Inr (data_df, cats1)"
    and tr: "loc data_df (index train_df) = Inr train1"
    and va: "case val_df of None \<Rightarrow> val1 = None
             | Some v \<Rightarrow> \<exists>v1. loc data_df (index v) = Inr v1 \<and> val1 = Some v1"
    and te: "loc data_df (index test_df) = Inr test1"
    by blast
  have eu': "encode_union E (concat_rows ?dfs) cats s = Inr (data_df, cats1)"
    using eu by (simp only: union_table_concat)
  have ret': "retained (concat_rows ?dfs) cats s c"
    using ret by (simp only: union_table_concat)
  have dist': "distinct (index (concat_rows ?dfs))"
    using dist by (simp add: index_concat_rows split: option.splits)
  have mem: "S \<in> set ?dfs"
    using pair by auto
  have lc: "loc data_df (index S) = Inr S'"
    using pair tr te va by auto
  from resplit_cell [OF eu' dist' mem lc i ret'] show ?thesis .
qed

lemma column_values_cells:
  "col_pos (columns d) c = Some j \<Longrightarrow> column_values d j = column_cells d c"
  by (simp add: column_values_def column_cells_def lookup_cell_pos)

lemma column_cells_nth:
  "i < length (rows d) \<Longrightarrow> column_cells d c ! i = lookup_cell (columns d) (snd (rows d ! i)) c"
  by (simp add: column_cells_def case_prod_unfold)

lemma length_column_cells [simp]: "length (column_cells d c) = length (rows d)"
  by (simp add: column_cells_def)

lemma fit_matrix_cell:
  assumes fc: "fit_categorical E train_df val_df test_df cats (Some s) = Inr (train1, val1, test1, cats1, enc1)"
    and s: "s = ''ohe'' \<or> s = ''binary''"
    and dist: "distinct (index train_df @ (case val_df of None \<Rightarrow> [] | Some v \<Rightarrow> index v) @ index test_df)"
    and m: "snd (load_num_feats train1 f) = Some m"
    and i: "i < length (rows train_df)"
    and k: "k < length (get_matching_cols train1 f)"
    and ret: "retained (union_table train_df val_df test_df) cats s (get_matching_cols train1 f ! k)"
  shows "m ! i ! k =
           fillna_cell (column_median (column_cells train_df (get_matching_cols train1 f ! k)))
             (column_cells train_df (get_matching_cols train1 f ! k) ! i)"
proof -
  let ?cs = "get_matching_cols train1 f"
  let ?c = "?cs ! k"
  let ?t' = "fillna_median train1 ?cs"
  have idx: "index train1 = index train_df"
    using resplit_index [OF fc s dist] by simp
  then have len: "length (rows train1) = length (rows train_df)"
    by (metis index_def length_map)
  have i1: "i < length (rows train1)" using i len by simp
  have mv: "m = values_named ?t' ?cs"
    using m by (auto simp: load_num_feats_def Let_def split: if_splits)
  have cin: "?c \<in> set ?cs" using k by simp
  then have "?c \<in> set (columns train1)"
    by (auto simp: get_matching_cols_def)
  from col_pos_in_set [OF this] obtain j where j: "col_pos (columns train1) ?c = Some j" ..
  have pair: "(train_df, train1) = (train_df, train1) \<or> (train_df, train1) = (test_df, test1)
               \<or> (val_df = Some train_df \<and> val1 = Some train1)" by simp
  have pres: "lookup_cell (columns train1) (snd (rows train1 ! i')) ?c
                = lookup_cell (columns train_df) (snd (rows train_df ! i')) ?c
              \<and> j < length (snd (rows train1 ! i'))"
    if "i' < length (rows train_df)" for i'
    using resplit_split_cell [OF fc s dist pair that ret] j by simp
  have cells: "column_cells train1 ?c = column_cells train_df ?c"
  proof (rule nth_equalityI)
    show "length (column_cells train1 ?c) = length (column_cells train_df ?c)"
      by (simp add: len)
  next
    fix i' assume "i' < length (column_cells train1 ?c)"
    then have a: "i' < length (rows train_df)" and b: "i' < length (rows train1)"
      by (simp_all add: len)
    show "column_cells train1 ?c ! i' = column_cells train_df ?c ! i'"
      using pres [OF a] by (simp add: column_cells_nth a b)
  qed
  have pos: "j < length (columns train1)" "columns train1 ! j = ?c"
    using col_pos_Some [OF j] by simp_all
  have sel: "selected train1 ?cs j"
    using pos cin by (simp add: selected_def)
  have jl: "j < length (snd (rows train1 ! i))"
    using pres [OF i] by simp
  have "m ! i ! k = lookup_cell (columns ?t') (snd (rows ?t' ! i)) ?c"
    using i1 k by (simp add: mv values_named_nth)
  also have "\<dots> = cell_at (snd (rows ?t' ! i)) j"
    using j by (simp add: lookup_cell_pos)
  also have "\<dots> = fillna_cell (column_median (column_values train1 j))
                     (cell_at (snd (rows train1 ! i)) j)"
    using cell_at_fillna_median [OF i1 jl, of ?cs] sel by simp
  also have "column_values train1 j = column_cells train_df ?c"
    using column_values_cells [OF j] cells by simp
  also have "cell_at (snd (rows train1 ! i)) j = column_cells train_df ?c ! i"
    using cells column_cells_nth [OF i1, of ?c] j by (simp add: lookup_cell_pos)
  finally show ?thesis .
qed

lemma normalize_Some:
  assumes "normalize_numerical_feats E nums0 (Some st) = Inr (nums, calls)"
  shows "(nums0 = None \<and> nums = None \<and> calls = [])
         \<or> (\<exists>x y. nums0 = Some x \<and> transform E st x = Inr y \<and> nums = Some y
               \<and> calls = [Transform x])"
  using assms
  by (auto simp: normalize_numerical_feats_def ebind_eq_Inr split: option.splits)

lemma load_data_transformed:
  assumes ld: "load_data E d opts cats enc (Some st) = Inr (ds, calls)"
    and f: "convert_to_func (numerical_cols opts) = Inr f"
  shows "(snd (load_num_feats (if debug opts then d\<lparr>rows := take 50 (rows d)\<rparr> else d) f) = None
            \<and> ds_numerical_feats ds = None \<and> calls = [])
         \<or> (\<exists>x y. snd (load_num_feats (if debug opts then d\<lparr>rows := take 50 (rows d)\<rparr> else d) f)
                     = Some x
               \<and> transform E st x = Inr y \<and> ds_numerical_feats ds = Some y
               \<and> calls = [Transform x])"
proof -
  from load_data_InrD [OF ld] obtain nf nums where
    nf: "convert_to_func (numerical_cols opts) = Inr nf"
    and n: "normalize_numerical_feats E
              (snd (load_num_feats (if debug opts then d\<lparr>rows := take 50 (rows d)\<rparr> else d) nf))
              (Some st) = Inr (nums, calls)"
    and d: "ds_numerical_feats ds = nums"
    by blast
  from nf f have "nf = f" by simp
  with normalize_Some [OF n] d show ?thesis by simp
qed

lemma load_data_st_result:
  "snd (load_data_st E df opts cats enc tr) = load_data E df opts cats enc tr"
  unfolding load_data_st_def load_data_def load_cat_and_num_feats_def Let_def
  by (simp add: ebind_def case_prod_unfold split: sum.splits)

lemma load_data_st_table:
  assumes "load_data E df opts cats enc tr = Inr (ds, calls)"
  shows "fst (load_data_st E df opts cats enc tr) = ds_df ds"
proof -
  from load_data_InrD [OF assms] obtain tf cf nf catf where
    "convert_to_func (text_cols opts) = Inr tf"
    "convert_to_func cats = Inr cf"
    "convert_to_func (numerical_cols opts) = Inr nf"
    "load_cat_feats E (if debug opts then df\<lparr>rows := take 50 (rows df)\<rparr> else df) cf enc = Inr catf"
    "ds_df ds = fst (load_num_feats (if debug opts then df\<lparr>rows := take 50 (rows df)\<rparr> else df) nf)"
    by blast
  then show ?thesis
    by (simp add: load_data_st_def case_prod_unfold Let_def)
qed

lemma fit_categorical_no_val:
  assumes "s = ''ohe'' \<or> s = ''binary''"
  shows "fit_categorical E train_df None test_df cats (Some s)
        = ebind (encode_union E (concat_rows [train_df, test_df]) cats s) (\<lambda>(data_df, cats').
          ebind (loc data_df (index train_df)) (\<lambda>train'.
          ebind (loc data_df (index test_df)) (\<lambda>test'.
            Inr (train', None, test', cats', None))))"
  using assms by (auto simp: fit_categorical_def union_table_None)

subsection \<open>The one-hot example evaluated\<close>

lemma example_load_data_from_folder_ohe:
  "load_data_from_folder example_collaborators example_train None example_test example_options
     (Names [''c'']) (Some ''ohe'') ''quantile_normal'' = Inr example_prepared_ohe"
  by code_simp

lemma example_distinct:
  "distinct (index example_train @ (case None of None \<Rightarrow> [] | Some v \<Rightarrow> index v) @ index example_test)"
  by (simp add: index_def example_train_def example_test_def)

lemma example_retained_n:
  "retained (union_table example_train None example_test) (Names [''c'']) ''ohe'' ''n''"
  by (simp add: retained_def union_table_def concat_rows_def first_occurrences_def
        example_train_def example_test_def)

lemma example_matching_ohe: "get_matching_cols example_train_ohe is_n = [''n'']"
  by (simp add: get_matching_cols_def example_train_ohe_def is_n_def)

subsection \<open>The claims\<close>

text \<open>
  C1 (amended). Round-trip of the union fit. When the categorical scheme is one-hot or
  binary and no row label occurs twice among the rows of the present splits, splitting the
  encoded union by the labels of the original tables gives back, for train, validation
  and test, exactly the labels of the original table in their original order; each row is
  the row that the encoded union holds for its label; and in every column that the
  encoding leaves in place, each row of a split holds after the round trip the cell that
  the same row of the original split holds.
\<close>

theorem resplit_round_trip:
  assumes "fit_categorical E train_df val_df test_df cats (Some s) = Inr (train1, val1, test1, cats1, enc1)"
    and "s = ''ohe'' \<or> s = ''binary''"
    and "distinct (index train_df @ (case val_df of None \<Rightarrow> [] | Some v \<Rightarrow> index v) @ index test_df)"
  shows "index train1 = index train_df \<and> map_option index val1 = map_option index val_df
         \<and> index test1 = index test_df
         \<and> (\<exists>data_df. encode_union E (union_table train_df val_df test_df) cats s = Inr (data_df, cats1)
           \<and> rows train1 = map (\<lambda>k. (k, row_of data_df k)) (index train_df)
           \<and> map_option rows val1 = map_option (\<lambda>v. map (\<lambda>k. (k, row_of data_df k)) (index v)) val_df
           \<and> rows test1 = map (\<lambda>k. (k, row_of data_df k)) (index test_df))
         \<and> (\<forall>i c. i < length (rows train_df)
                \<and> retained (union_table train_df val_df test_df) cats s c \<longrightarrow>
              lookup_cell (columns train1) (snd (rows train1 ! i)) c
                = lookup_cell (columns train_df) (snd (rows train_df ! i)) c)
         \<and> (\<forall>v v1 i c. val_df = Some v \<and> val1 = Some v1 \<and> i < length (rows v)
                \<and> retained (union_table train_df val_df test_df) cats s c \<longrightarrow>
              lookup_cell (columns v1) (snd (rows v1 ! i)) c
                = lookup_cell (columns v) (snd (rows v ! i)) c)
         \<and> (\<forall>i c. i < length (rows test_df)
                \<and> retained (union_table train_df val_df test_df) cats s c \<longrightarrow>
              lookup_cell (columns test1) (snd (rows test1 ! i)) c
                = lookup_cell (columns test_df) (snd (rows test_df ! i)) c)"
proof -
  note idx = resplit_index [OF assms]
  note rws = resplit_rows [OF assms]
  have tr: "\<forall>i c. i < length (rows train_df)
                \<and> retained (union_table train_df val_df test_df) cats s c \<longrightarrow>
              lookup_cell (columns train1) (snd (rows train1 ! i)) c
                = lookup_cell (columns train_df) (snd (rows train_df ! i)) c"
  proof (intro allI impI)
    fix i c
    assume h: "i < length (rows train_df) \<and> retained (union_table train_df val_df test_df) cats s c"
    have p: "(train_df, train1) = (train_df, train1) \<or> (train_df, train1) = (test_df, test1)
               \<or> (val_df = Some train_df \<and> val1 = Some train1)" by simp
    from resplit_split_cell [OF assms p] h
    show "lookup_cell (columns train1) (snd (rows train1 ! i)) c
                = lookup_cell (columns train_df) (snd (rows train_df ! i)) c"
      by simp
  qed
  have va: "\<forall>v v1 i c. val_df = Some v \<and> val1 = Some v1 \<and> i < length (rows v)
                \<and> retained (union_table train_df val_df test_df) cats s c \<longrightarrow>
              lookup_cell (columns v1) (snd (rows v1 ! i)) c
                = lookup_cell (columns v) (snd (rows v ! i)) c"
  proof (intro allI impI)
    fix v v1 i c
    assume h: "val_df = Some v \<and> val1 = Some v1 \<and> i < length (rows v)
                \<and> retained (union_table train_df val_df test_df) cats s c"
    then have p: "(v, v1) = (train_df, train1) \<or> (v, v1) = (test_df, test1)
               \<or> (val_df = Some v \<and> val1 = Some v1)" by simp
    from h have hi: "i < length (rows v)"
      and hr: "retained (union_table train_df val_df test_df) cats s c"
      by blast+
    from resplit_split_cell [OF assms p hi hr]
    show "lookup_cell (columns v1) (snd (rows v1 ! i)) c
                = lookup_cell (columns v) (snd (rows v ! i)) c"
      by (rule conjunct1)
  qed
  have te: "\<forall>i c. i < length (rows test_df)
                \<and> retained (union_table train_df val_df test_df) cats s c \<longrightarrow>
              lookup_cell (columns test1) (snd (rows test1 ! i)) c
                = lookup_cell (columns test_df) (snd (rows test_df ! i)) c"
  proof (intro allI impI)
    fix i c
    assume h: "i < length (rows test_df) \<and> retained (union_table train_df val_df test_df) cats s c"
    have p: "(test_df, test1) = (train_df, train1) \<or> (test_df, test1) = (test_df, test1)
               \<or> (val_df = Some test_df \<and> val1 = Some test1)" by simp
    from resplit_split_cell [OF assms p] h
    show "lookup_cell (columns test1) (snd (rows test1 ! i)) c
                = lookup_cell (columns test_df) (snd (rows test_df ! i)) c"
      by simp
  qed
  show ?thesis
    by (rule conjI, rule idx [THEN conjunct1], rule conjI, rule idx [THEN conjunct2, THEN conjunct1],
        rule conjI, rule idx [THEN conjunct2, THEN conjunct2], rule conjI, rule rws,
        rule conjI, rule tr, rule conjI, rule va, rule te)
qed

theorem resplit_round_trip_witness:
  "distinct (index example_train @ index example_test)
   \<and> index example_train_ohe = [LInt 0, LInt 1, LInt 2]
   \<and> index example_test_ohe = [LInt 3]
   \<and> retained (union_table example_train None example_test) (Names [''c'']) ''ohe'' ''t''
   \<and> lookup_cell (columns example_train_ohe) (snd (rows example_train_ohe ! 1)) ''t''
       = lookup_cell (columns example_train) (snd (rows example_train ! 1)) ''t''
   \<and> lookup_cell (columns example_train) (snd (rows example_train ! 1)) ''t'' = Str ''yo''
   \<and> lookup_cell (columns example_test_ohe) (snd (rows example_test_ohe ! 0)) ''n''
       = lookup_cell (columns example_test) (snd (rows example_test ! 0)) ''n''
   \<and> lookup_cell (columns example_test) (snd (rows example_test ! 0)) ''n'' = Num 5"
proof -
  have s: "''ohe'' = ''ohe'' \<or> ''ohe'' = ''binary''" by simp
  have d: "distinct (index example_train @ (case None of None \<Rightarrow> [] | Some v \<Rightarrow> index v)
             @ index example_test)"
    by (simp add: index_def example_train_def example_test_def)
  note t = resplit_round_trip [OF example_fit_categorical s d]
  have i1: "index example_train_ohe = index example_train"
    and i2: "index example_test_ohe = index example_test"
    using t by simp_all
  have rt: "retained (union_table example_train None example_test) (Names [''c'']) ''ohe'' ''t''"
    and rn: "retained (union_table example_train None example_test) (Names [''c'']) ''ohe'' ''n''"
    by (simp_all add: retained_def union_table_def concat_rows_def first_occurrences_def
          example_train_def example_test_def)
  have l1: "1 < length (rows example_train)" and l2: "0 < length (rows example_test)"
    by (simp_all add: example_train_def example_test_def)
  have c1: "lookup_cell (columns example_train_ohe) (snd (rows example_train_ohe ! 1)) ''t''
       = lookup_cell (columns example_train) (snd (rows example_train ! 1)) ''t''"
    using t l1 rt by blast
  have c2: "lookup_cell (columns example_test_ohe) (snd (rows example_test_ohe ! 0)) ''n''
       = lookup_cell (columns example_test) (snd (rows example_test ! 0)) ''n''"
    using t l2 rn by blast
  have v1: "lookup_cell (columns example_train) (snd (rows example_train ! 1)) ''t'' = Str ''yo''"
    by (simp add: example_train_def)
  have v2: "lookup_cell (columns example_test) (snd (rows example_test ! 0)) ''n'' = Num 5"
    by (simp add: example_test_def)
  have d': "distinct (index example_train @ index example_test)"
    using d by simp
  have i1': "index example_train_ohe = [LInt 0, LInt 1, LInt 2]"
    using i1 by (simp add: index_def example_train_def)
  have i2': "index example_test_ohe = [LInt 3]"
    using i2 by (simp add: index_def example_test_def)
  from d' i1' i2' rt c1 v1 c2 v2 show ?thesis
    by (intro conjI)
qed

text \<open>
  The claim as stated fails when a label occurs in two splits: with the label 0 in both
  the train and the test table, the train table after the split has four rows, one of
  them the row of the test table, and the test table has two.
\<close>

theorem resplit_overlapping_labels_counterexample:
  "fit_categorical example_collaborators example_train None overlapping_test (Names [''c''])
     (Some ''ohe'')
     = Inr (overlapping_train_ohe, None, overlapping_test_ohe,
            Names [''c_a'', ''c_b'', ''c_z'', ''c_nan''], None)
   \<and> index example_train = [LInt 0, LInt 1, LInt 2]
   \<and> index overlapping_train_ohe = [LInt 0, LInt 0, LInt 1, LInt 2]
   \<and> index overlapping_test = [LInt 0]
   \<and> index overlapping_test_ohe = [LInt 0, LInt 0]"
  using overlapping_fit_categorical
  by (simp add: index_def example_train_def overlapping_test_def overlapping_train_ohe_def
        overlapping_test_ohe_def)

text \<open>
  C2 (amended). With \<^verbatim>\<open>debug=True\<close> every call of \<^verbatim>\<open>load_data\<close> works on the first 50
  rows of the table it is given: it behaves as the call without \<^verbatim>\<open>debug\<close> on the cut
  table, so that the cut precedes the column resolution, the per-split categorical
  features, the imputation, the transform and the text aggregation of that call. The
  table and the labels of the produced bundle, the matrix handed to the transformer, the
  pass-through categorical matrix and the untransformed numerical matrix have min(50, n)
  rows, for n the row count of the table given to \<^verbatim>\<open>load_data\<close>. The fit of the union
  and the fit of the numerical transformer happen before, on all rows.
\<close>

theorem debug_truncation:
  "load_data E data_df (opts\<lparr>debug := True\<rparr>) cats enc tr
     = load_data E (data_df\<lparr>rows := take 50 (rows data_df)\<rparr>) (opts\<lparr>debug := False\<rparr>) cats enc tr
   \<and> (load_data E data_df (opts\<lparr>debug := True\<rparr>) cats enc tr = Inr (ds, calls) \<longrightarrow>
        length (rows (ds_df ds)) = min 50 (length (rows data_df))
      \<and> index (ds_df ds) = take 50 (index data_df)
      \<and> length (ds_labels ds) = min 50 (length (rows data_df))
      \<and> (\<forall>m. Transform m \<in> set calls \<longrightarrow> length m = min 50 (length (rows data_df)))
      \<and> (\<forall>m. ds_cat_feats ds = Some m \<and> (enc = None \<or> enc = Some ''none'') \<longrightarrow>
             length m = min 50 (length (rows data_df)))
      \<and> (\<forall>m. ds_numerical_feats ds = Some m \<and> tr = None \<longrightarrow>
             length m = min 50 (length (rows data_df))))"
proof (intro conjI impI)
  show "load_data E data_df (opts\<lparr>debug := True\<rparr>) cats enc tr
     = load_data E (data_df\<lparr>rows := take 50 (rows data_df)\<rparr>) (opts\<lparr>debug := False\<rparr>) cats enc tr"
    by (rule load_data_debug)
next
  assume ok: "load_data E data_df (opts\<lparr>debug := True\<rparr>) cats enc tr = Inr (ds, calls)"
  let ?d = "data_df\<lparr>rows := take 50 (rows data_df)\<rparr>"
  from load_data_InrD [OF ok] obtain cf nf catf nums where
    df: "ds_df ds = fst (load_num_feats ?d nf)"
    and cat: "load_cat_feats E ?d cf enc = Inr catf" "ds_cat_feats ds = catf"
    and norm: "normalize_numerical_feats E (snd (load_num_feats ?d nf)) tr = Inr (nums, calls)"
    and nums: "ds_numerical_feats ds = nums"
    and lab: "ds_labels ds = map (\<lambda>(l, r). lookup_cell (columns (ds_df ds)) r
                 (label_col (opts\<lparr>debug := True\<rparr>))) (rows (ds_df ds))"
    by auto
  have cut: "length (rows ?d) = min 50 (length (rows data_df))"
    by (simp add: min.commute)
  show n: "length (rows (ds_df ds)) = min 50 (length (rows data_df))"
    by (simp add: df load_num_feats_fst min.commute)
  show "index (ds_df ds) = take 50 (index data_df)"
    by (simp add: df load_num_feats_fst) (simp add: index_def take_map)
  show "length (ds_labels ds) = min 50 (length (rows data_df))"
    using n by (simp add: lab)
  show "\<forall>m. Transform m \<in> set calls \<longrightarrow> length m = min 50 (length (rows data_df))"
  proof (intro allI impI)
    fix m assume "Transform m \<in> set calls"
    with normalize_calls [OF norm] have "snd (load_num_feats ?d nf) = Some m" by auto
    from load_num_feats_snd_length [OF this] show "length m = min 50 (length (rows data_df))"
      by (simp only: cut)
  qed
  show "\<forall>m. ds_cat_feats ds = Some m \<and> (enc = None \<or> enc = Some ''none'') \<longrightarrow>
             length m = min 50 (length (rows data_df))"
  proof (intro allI impI)
    fix m assume h: "ds_cat_feats ds = Some m \<and> (enc = None \<or> enc = Some ''none'')"
    with cat have "load_cat_feats E ?d cf enc = Inr (Some m)" by simp
    from load_cat_feats_passthrough_length [OF this] h
    show "length m = min 50 (length (rows data_df))"
      by (simp only: cut)
  qed
  show "\<forall>m. ds_numerical_feats ds = Some m \<and> tr = None \<longrightarrow>
             length m = min 50 (length (rows data_df))"
  proof (intro allI impI)
    fix m assume h: "ds_numerical_feats ds = Some m \<and> tr = None"
    with norm normalize_None [of E "snd (load_num_feats ?d nf)" nums calls] nums
    have "snd (load_num_feats ?d nf) = Some m" by simp
    from load_num_feats_snd_length [OF this] show "length m = min 50 (length (rows data_df))"
      by (simp only: cut)
  qed
qed

theorem debug_truncation_witness:
  "\<exists>ds calls.
     load_data counting_collaborators long_train (example_options\<lparr>debug := True\<rparr>)
       NoneSpec None (Some 51) = Inr (ds, calls)
     \<and> length (rows long_train) = 51
     \<and> length (rows (ds_df ds)) = 50
     \<and> index (ds_df ds) = take 50 (index long_train)
     \<and> length (ds_labels ds) = 50"
proof -
  from long_train_debug_load_data [OF long_train_columns long_train_length]
  obtain ds calls where
    ok: "load_data counting_collaborators long_train (example_options\<lparr>debug := True\<rparr>)
           NoneSpec None (Some 51) = Inr (ds, calls)"
    by blast
  from debug_truncation [of counting_collaborators long_train example_options NoneSpec None
      "Some 51" ds calls] ok
  have "length (rows (ds_df ds)) = min 50 (length (rows long_train))"
    and "index (ds_df ds) = take 50 (index long_train)"
    and "length (ds_labels ds) = min 50 (length (rows long_train))"
    by simp_all
  with ok show ?thesis
    by (simp add: long_train_length)
qed

text \<open>
  The claim as stated fails for the fit of the numerical transformer: on a train table of
  51 rows with \<^verbatim>\<open>debug=True\<close> the transformer is fitted on 51 rows (the fitted state of
  these collaborators is the row count of the matrix), while the bundle has 50 rows.
\<close>

theorem debug_fit_untruncated_counterexample:
  "map_sum id numerical_transformer
     (load_data_from_folder counting_collaborators long_train None short_test
        (example_options\<lparr>debug := True\<rparr>) NoneSpec None ''quantile_normal'') = Inr (Some 51)
   \<and> map_sum id (length \<circ> rows \<circ> ds_df \<circ> train_dataset)
     (load_data_from_folder counting_collaborators long_train None short_test
        (example_options\<lparr>debug := True\<rparr>) NoneSpec None ''quantile_normal'') = Inr 50"
proof -
  let ?opts = "example_options\<lparr>debug := True\<rparr>"
  let ?nf = "\<lambda>(df::table) x. x \<in> set [''n'']"
  have fc: "fit_categorical counting_collaborators long_train None short_test NoneSpec None
              = Inr (long_train, None, short_test, NoneSpec, None)"
    by (simp add: fit_categorical_def)
  from long_train_fit_numerical obtain m where
    fn: "fit_numerical counting_collaborators long_train (numerical_cols ?opts) ''quantile_normal''
         = Inr (fst (load_num_feats long_train ?nf), Some 51, [Fit m])"
    by (auto simp: example_options_def)
  have "columns (fst (load_num_feats long_train ?nf)) = [''t'', ''n'', ''y'']"
    and "length (rows (fst (load_num_feats long_train ?nf))) = 51"
    by (simp_all add: long_train_columns long_train_length)
  from long_train_debug_load_data [OF this] obtain ds calls where
    ld: "load_data counting_collaborators (fst (load_num_feats long_train ?nf)) ?opts
           NoneSpec None (Some 51) = Inr (ds, calls)"
    and len: "length (rows (ds_df ds)) = 50"
    by blast
  show ?thesis
    using len fn ld short_test_load_data
    by (simp add: load_data_from_folder_def fc)
qed

text \<open>
  C3 (amended). In every successful call with a transform method other than none, the
  numerical transformer is fitted exactly once, before any transform, on the imputed
  numerical matrix of the train table as it stands after the categorical phase; the
  fitted state is the one returned and the one handed to every transform, the numerical
  features of each bundle being the transform, under that state, of the imputed
  numerical matrix of the table of that bundle. The train
  table of the fit is the training split itself when the scheme is neither one-hot nor
  binary. When the scheme is one-hot or binary and no label occurs twice among the rows
  of the present splits, the train table has the labels of the training split, the matrix
  of the fit has one row per row of the training split, and in every numerical column
  that the encoding leaves in place its entry is the cell of the training split, a
  missing one replaced by the median of that column of the training split alone.
\<close>

theorem normalizer_fit_once:
  assumes "load_data_from_folder E train_df val_df test_df opts cats enc meth = Inr p"
    and "meth \<noteq> ''none''"
  shows "\<exists>train1 val1 test1 cats1 enc1 f m st ms.
           fit_categorical E train_df val_df test_df cats enc = Inr (train1, val1, test1, cats1, enc1)
         \<and> convert_to_func (numerical_cols opts) = Inr f
         \<and> snd (load_num_feats train1 f) = Some m
         \<and> fit E meth m = Inr st
         \<and> numerical_transformer p = Some st
         \<and> transformer_calls p = Fit m # map Transform ms
         \<and> (enc \<noteq> Some ''ohe'' \<and> enc \<noteq> Some ''binary'' \<longrightarrow> train1 = train_df)
         \<and> (distinct (index train_df @ (case val_df of None \<Rightarrow> [] | Some v \<Rightarrow> index v)
                        @ index test_df) \<longrightarrow> index train1 = index train_df)
         \<and> (\<forall>s. enc = Some s \<and> (s = ''ohe'' \<or> s = ''binary'')
                \<and> distinct (index train_df @ (case val_df of None \<Rightarrow> [] | Some v \<Rightarrow> index v)
                        @ index test_df) \<longrightarrow>
                length m = length (rows train_df)
              \<and> (\<forall>i k. i < length (rows train_df) \<and> k < length (get_matching_cols train1 f)
                      \<and> retained (union_table train_df val_df test_df) cats s
                           (get_matching_cols train1 f ! k) \<longrightarrow>
                      m ! i ! k =
                        fillna_cell
                          (column_median (column_cells train_df (get_matching_cols train1 f ! k)))
                          (column_cells train_df (get_matching_cols train1 f ! k) ! i)))
         \<and> (\<forall>d ds. (d, ds) = (fst (load_num_feats train1 f), train_dataset p)
                   \<or> (d, ds) = (test1, test_dataset p)
                   \<or> (val1 = Some d \<and> val_dataset p = Some ds) \<longrightarrow>
                (snd (load_num_feats (if debug opts then d\<lparr>rows := take 50 (rows d)\<rparr> else d) f)
                   = None
                 \<and> ds_numerical_feats ds = None)
              \<or> (\<exists>x y. snd (load_num_feats
                               (if debug opts then d\<lparr>rows := take 50 (rows d)\<rparr> else d) f) = Some x
                    \<and> Transform x \<in> set (transformer_calls p)
                    \<and> transform E st x = Inr y
                    \<and> ds_numerical_feats ds = Some y))"
proof -
  from load_data_from_folder_InrD [OF assms(1)]
  obtain train1 val1 test1 cats1 enc1 train2 c0 c1 c2 c3 where
    fc: "fit_categorical E train_df val_df test_df cats enc = Inr (train1, val1, test1, cats1, enc1)"
    and fn: "fit_numerical E train1 (numerical_cols opts) meth = Inr (train2, numerical_transformer p, c0)"
    and ltr: "load_data E train2 opts cats1 enc1 (numerical_transformer p) = Inr (train_dataset p, c1)"
    and lte: "load_data E test1 opts cats1 enc1 (numerical_transformer p) = Inr (test_dataset p, c2)"
    and lva: "case val1 of
               None \<Rightarrow> val_dataset p = None \<and> c3 = []
             | Some v \<Rightarrow> \<exists>vd. load_data E v opts cats1 enc1 (numerical_transformer p) = Inr (vd, c3)
                              \<and> val_dataset p = Some vd"
    and calls: "transformer_calls p = c0 @ c1 @ c2 @ c3"
    by blast
  from fit_numerical_InrD [OF fn assms(2)] obtain f m st where
    f: "convert_to_func (numerical_cols opts) = Inr f"
    and t2: "train2 = fst (load_num_feats train1 f)"
    and m: "snd (load_num_feats train1 f) = Some m"
    and st: "fit E meth m = Inr st" "numerical_transformer p = Some st"
    and c0: "c0 = [Fit m]"
    by blast
  from load_data_calls [OF ltr] obtain ms1 where ms1: "c1 = map Transform ms1" ..
  from load_data_calls [OF lte] obtain ms2 where ms2: "c2 = map Transform ms2" ..
  have "\<exists>ms3. c3 = map Transform ms3"
  proof (cases val1)
    case None
    with lva have "c3 = map Transform []" by simp
    then show ?thesis ..
  next
    case (Some v)
    with lva obtain vd where "load_data E v opts cats1 enc1 (numerical_transformer p) = Inr (vd, c3)"
      by auto
    then show ?thesis by (rule load_data_calls)
  qed
  then obtain ms3 where ms3: "c3 = map Transform ms3" ..
  have tc: "transformer_calls p = Fit m # map Transform (ms1 @ ms2 @ ms3)"
    by (simp add: calls c0 ms1 ms2 ms3)
  have other: "enc \<noteq> Some ''ohe'' \<and> enc \<noteq> Some ''binary'' \<longrightarrow> train1 = train_df"
    using fit_categorical_other [OF fc] by simp
  have dist: "distinct (index train_df @ (case val_df of None \<Rightarrow> [] | Some v \<Rightarrow> index v)
                        @ index test_df) \<longrightarrow> index train1 = index train_df"
    using fit_categorical_train_index [OF fc] by simp
  have cells: "\<forall>s. enc = Some s \<and> (s = ''ohe'' \<or> s = ''binary'')
                \<and> distinct (index train_df @ (case val_df of None \<Rightarrow> [] | Some v \<Rightarrow> index v)
                        @ index test_df) \<longrightarrow>
                length m = length (rows train_df)
              \<and> (\<forall>i k. i < length (rows train_df) \<and> k < length (get_matching_cols train1 f)
                      \<and> retained (union_table train_df val_df test_df) cats s
                           (get_matching_cols train1 f ! k) \<longrightarrow>
                      m ! i ! k =
                        fillna_cell
                          (column_median (column_cells train_df (get_matching_cols train1 f ! k)))
                          (column_cells train_df (get_matching_cols train1 f ! k) ! i))"
  proof (intro allI impI conjI)
    fix s
    assume h: "enc = Some s \<and> (s = ''ohe'' \<or> s = ''binary'')
                \<and> distinct (index train_df @ (case val_df of None \<Rightarrow> [] | Some v \<Rightarrow> index v)
                        @ index test_df)"
    then have idx: "index train1 = index train_df" using dist by simp
    then have "length (rows train1) = length (rows train_df)"
      by (metis index_def length_map)
    with load_num_feats_snd_length [OF m] show "length m = length (rows train_df)" by simp
  next
    fix s i k
    assume h: "enc = Some s \<and> (s = ''ohe'' \<or> s = ''binary'')
                \<and> distinct (index train_df @ (case val_df of None \<Rightarrow> [] | Some v \<Rightarrow> index v)
                        @ index test_df)"
      and ik: "i < length (rows train_df) \<and> k < length (get_matching_cols train1 f)
                      \<and> retained (union_table train_df val_df test_df) cats s
                           (get_matching_cols train1 f ! k)"
    from h fc have fc': "fit_categorical E train_df val_df test_df cats (Some s)
                           = Inr (train1, val1, test1, cats1, enc1)" by simp
    from h have s: "s = ''ohe'' \<or> s = ''binary''"
      and d: "distinct (index train_df @ (case val_df of None \<Rightarrow> [] | Some v \<Rightarrow> index v)
                        @ index test_df)" by simp_all
    from ik have i: "i < length (rows train_df)"
      and k: "k < length (get_matching_cols train1 f)"
      and r: "retained (union_table train_df val_df test_df) cats s (get_matching_cols train1 f ! k)"
      by simp_all
    show "m ! i ! k =
            fillna_cell (column_median (column_cells train_df (get_matching_cols train1 f ! k)))
              (column_cells train_df (get_matching_cols train1 f ! k) ! i)"
      by (rule fit_matrix_cell [OF fc' s d m i k r])
  qed
  have sub1: "set c1 \<subseteq> set (transformer_calls p)" and sub2: "set c2 \<subseteq> set (transformer_calls p)"
    and sub3: "set c3 \<subseteq> set (transformer_calls p)"
    by (auto simp: calls)
  have tr: "(\<forall>d ds. (d, ds) = (fst (load_num_feats train1 f), train_dataset p)
                   \<or> (d, ds) = (test1, test_dataset p)
                   \<or> (val1 = Some d \<and> val_dataset p = Some ds) \<longrightarrow>
                (snd (load_num_feats (if debug opts then d\<lparr>rows := take 50 (rows d)\<rparr> else d) f)
                   = None
                 \<and> ds_numerical_feats ds = None)
              \<or> (\<exists>x y. snd (load_num_feats
                               (if debug opts then d\<lparr>rows := take 50 (rows d)\<rparr> else d) f) = Some x
                    \<and> Transform x \<in> set (transformer_calls p)
                    \<and> transform E st x = Inr y
                    \<and> ds_numerical_feats ds = Some y))"
  proof (intro allI impI)
    fix d ds
    assume "(d, ds) = (fst (load_num_feats train1 f), train_dataset p)
                   \<or> (d, ds) = (test1, test_dataset p)
                   \<or> (val1 = Some d \<and> val_dataset p = Some ds)"
    then have "\<exists>c. load_data E d opts cats1 enc1 (Some st) = Inr (ds, c)
                  \<and> set c \<subseteq> set (transformer_calls p)"
    proof (elim disjE)
      assume "(d, ds) = (fst (load_num_feats train1 f), train_dataset p)"
      with ltr st(2) sub1 t2 show ?thesis by auto
    next
      assume "(d, ds) = (test1, test_dataset p)"
      with lte st(2) sub2 show ?thesis by auto
    next
      assume v: "val1 = Some d \<and> val_dataset p = Some ds"
      with lva have "load_data E d opts cats1 enc1 (numerical_transformer p) = Inr (ds, c3)"
        by auto
      with st(2) sub3 show ?thesis by auto
    qed
    then obtain c where ld: "load_data E d opts cats1 enc1 (Some st) = Inr (ds, c)"
      and sub: "set c \<subseteq> set (transformer_calls p)" by blast
    from load_data_transformed [OF ld f]
    show "(snd (load_num_feats (if debug opts then d\<lparr>rows := take 50 (rows d)\<rparr> else d) f)
                   = None
                 \<and> ds_numerical_feats ds = None)
              \<or> (\<exists>x y. snd (load_num_feats
                               (if debug opts then d\<lparr>rows := take 50 (rows d)\<rparr> else d) f) = Some x
                    \<and> Transform x \<in> set (transformer_calls p)
                    \<and> transform E st x = Inr y
                    \<and> ds_numerical_feats ds = Some y)"
    proof
      assume "snd (load_num_feats (if debug opts then d\<lparr>rows := take 50 (rows d)\<rparr> else d) f) = None
            \<and> ds_numerical_feats ds = None \<and> c = []"
      then show ?thesis by simp
    next
      assume "\<exists>x y. snd (load_num_feats (if debug opts then d\<lparr>rows := take 50 (rows d)\<rparr> else d) f)
                     = Some x
               \<and> transform E st x = Inr y \<and> ds_numerical_feats ds = Some y
               \<and> c = [Transform x]"
      then obtain x y where
        x: "snd (load_num_feats (if debug opts then d\<lparr>rows := take 50 (rows d)\<rparr> else d) f) = Some x"
        and y: "transform E st x = Inr y" "ds_numerical_feats ds = Some y"
        and c: "c = [Transform x]"
        by blast
      from c sub have "Transform x \<in> set (transformer_calls p)" by simp
      with x y have "snd (load_num_feats
                               (if debug opts then d\<lparr>rows := take 50 (rows d)\<rparr> else d) f) = Some x
                    \<and> Transform x \<in> set (transformer_calls p)
                    \<and> transform E st x = Inr y
                    \<and> ds_numerical_feats ds = Some y"
        by simp
      then show ?thesis by blast
    qed
  qed
  show ?thesis
    using fc f m st tc other dist cells tr
    by (intro exI [of _ train1] exI [of _ val1] exI [of _ test1] exI [of _ cats1] exI [of _ enc1]
          exI [of _ f] exI [of _ m] exI [of _ st] exI [of _ "ms1 @ ms2 @ ms3"] conjI)
qed

theorem normalizer_fit_once_witness:
  "load_data_from_folder example_collaborators example_train None example_test example_options
     (Names [''c'']) (Some ''ohe'') ''quantile_normal'' = Inr example_prepared_ohe
   \<and> (\<exists>m ms. transformer_calls example_prepared_ohe = Fit m # map Transform ms
          \<and> numerical_transformer example_prepared_ohe = Some m
          \<and> snd (load_num_feats example_train_ohe is_n) = Some m
          \<and> length m = 3
          \<and> m ! 1 ! 0 = fillna_cell (column_median (column_cells example_train ''n''))
                          (column_cells example_train ''n'' ! 1)
          \<and> (\<exists>x y. snd (load_num_feats example_test_ohe is_n) = Some x
                 \<and> Transform x \<in> set (transformer_calls example_prepared_ohe)
                 \<and> transform example_collaborators m x = Inr y
                 \<and> ds_numerical_feats (test_dataset example_prepared_ohe) = Some y))"
proof -
  have ne: "''quantile_normal'' \<noteq> ''none''" by simp
  from normalizer_fit_once [OF example_load_data_from_folder_ohe ne]
  obtain train1 val1 test1 cats1 enc1 f m st ms where
    fc: "fit_categorical example_collaborators example_train None example_test (Names [''c''])
           (Some ''ohe'') = Inr (train1, val1, test1, cats1, enc1)"
    and f: "convert_to_func (numerical_cols example_options) = Inr f"
    and m: "snd (load_num_feats train1 f) = Some m"
    and st: "fit example_collaborators ''quantile_normal'' m = Inr st"
            "numerical_transformer example_prepared_ohe = Some st"
    and tc: "transformer_calls example_prepared_ohe = Fit m # map Transform ms"
    and cells: "\<forall>s. Some ''ohe'' = Some s \<and> (s = ''ohe'' \<or> s = ''binary'')
                \<and> distinct (index example_train @ (case None of None \<Rightarrow> [] | Some v \<Rightarrow> index v)
                        @ index example_test) \<longrightarrow>
                length m = length (rows example_train)
              \<and> (\<forall>i k. i < length (rows example_train) \<and> k < length (get_matching_cols train1 f)
                      \<and> retained (union_table example_train None example_test) (Names [''c'']) s
                           (get_matching_cols train1 f ! k) \<longrightarrow>
                      m ! i ! k =
                        fillna_cell
                          (column_median (column_cells example_train (get_matching_cols train1 f ! k)))
                          (column_cells example_train (get_matching_cols train1 f ! k) ! i))"
    and tr: "\<forall>d ds. (d, ds) = (fst (load_num_feats train1 f), train_dataset example_prepared_ohe)
                   \<or> (d, ds) = (test1, test_dataset example_prepared_ohe)
                   \<or> (val1 = Some d \<and> val_dataset example_prepared_ohe = Some ds) \<longrightarrow>
                (snd (load_num_feats (if debug example_options
                                      then d\<lparr>rows := take 50 (rows d)\<rparr> else d) f) = None
                 \<and> ds_numerical_feats ds = None)
              \<or> (\<exists>x y. snd (load_num_feats
                               (if debug example_options
                                then d\<lparr>rows := take 50 (rows d)\<rparr> else d) f) = Some x
                    \<and> Transform x \<in> set (transformer_calls example_prepared_ohe)
                    \<and> transform example_collaborators st x = Inr y
                    \<and> ds_numerical_feats ds = Some y)"
    by (elim exE conjE) (rule that)
  have t1: "train1 = example_train_ohe" and t3: "test1 = example_test_ohe"
    using fc example_fit_categorical by simp_all
  have fe: "f = is_n"
    using f by (auto simp: example_options_def is_n_def fun_eq_iff)
  have se: "st = m"
    using st(1) by (simp add: example_collaborators_def)
  have db: "debug example_options = False"
    by (simp add: example_options_def)
  have gm: "get_matching_cols train1 f = [''n'']"
    by (simp add: t1 fe example_matching_ohe)
  from cells [rule_format, of "''ohe''"] example_distinct
  have len: "length m = length (rows example_train)"
    and all: "\<forall>i k. i < length (rows example_train) \<and> k < length (get_matching_cols train1 f)
                      \<and> retained (union_table example_train None example_test) (Names [''c'']) ''ohe''
                           (get_matching_cols train1 f ! k) \<longrightarrow>
                      m ! i ! k =
                        fillna_cell
                          (column_median (column_cells example_train (get_matching_cols train1 f ! k)))
                          (column_cells example_train (get_matching_cols train1 f ! k) ! i)"
    by simp_all
  have l3: "length m = 3" using len by (simp add: example_train_def)
  have "(1::nat) < length (rows example_train)" by (simp add: example_train_def)
  with all [rule_format, of 1 0] example_retained_n
  have c: "m ! 1 ! 0 = fillna_cell (column_median (column_cells example_train ''n''))
                          (column_cells example_train ''n'' ! 1)"
    by (simp add: gm)
  have nn: "ds_numerical_feats (test_dataset example_prepared_ohe) \<noteq> None"
    by (simp add: example_prepared_ohe_def)
  have "(snd (load_num_feats example_test_ohe is_n) = None
                 \<and> ds_numerical_feats (test_dataset example_prepared_ohe) = None)
              \<or> (\<exists>x y. snd (load_num_feats example_test_ohe is_n) = Some x
                    \<and> Transform x \<in> set (transformer_calls example_prepared_ohe)
                    \<and> transform example_collaborators m x = Inr y
                    \<and> ds_numerical_feats (test_dataset example_prepared_ohe) = Some y)"
    using tr [rule_format, of example_test_ohe "test_dataset example_prepared_ohe"]
    by (simp add: t3 fe se db)
  with nn have x: "\<exists>x y. snd (load_num_feats example_test_ohe is_n) = Some x
                    \<and> Transform x \<in> set (transformer_calls example_prepared_ohe)
                    \<and> transform example_collaborators m x = Inr y
                    \<and> ds_numerical_feats (test_dataset example_prepared_ohe) = Some y"
    by (elim disjE conjE) simp_all
  have a1: "numerical_transformer example_prepared_ohe = Some m"
    using st(2) se by simp
  have a2: "snd (load_num_feats example_train_ohe is_n) = Some m"
    using m t1 fe by simp
  from tc a1 a2 l3 c x
  have "transformer_calls example_prepared_ohe = Fit m # map Transform ms
          \<and> numerical_transformer example_prepared_ohe = Some m
          \<and> snd (load_num_feats example_train_ohe is_n) = Some m
          \<and> length m = 3
          \<and> m ! 1 ! 0 = fillna_cell (column_median (column_cells example_train ''n''))
                          (column_cells example_train ''n'' ! 1)
          \<and> (\<exists>x y. snd (load_num_feats example_test_ohe is_n) = Some x
                 \<and> Transform x \<in> set (transformer_calls example_prepared_ohe)
                 \<and> transform example_collaborators m x = Inr y
                 \<and> ds_numerical_feats (test_dataset example_prepared_ohe) = Some y)"
    by (intro conjI)
  then have "\<exists>m ms. transformer_calls example_prepared_ohe = Fit m # map Transform ms
          \<and> numerical_transformer example_prepared_ohe = Some m
          \<and> snd (load_num_feats example_train_ohe is_n) = Some m
          \<and> length m = 3
          \<and> m ! 1 ! 0 = fillna_cell (column_median (column_cells example_train ''n''))
                          (column_cells example_train ''n'' ! 1)
          \<and> (\<exists>x y. snd (load_num_feats example_test_ohe is_n) = Some x
                 \<and> Transform x \<in> set (transformer_calls example_prepared_ohe)
                 \<and> transform example_collaborators m x = Inr y
                 \<and> ds_numerical_feats (test_dataset example_prepared_ohe) = Some y)"
    by (intro exI [of _ m] exI [of _ ms])
  with example_load_data_from_folder_ohe show ?thesis by (intro conjI)
qed

text \<open>
  The claim as stated fails when a label occurs in two splits and the scheme is one-hot:
  with the label 0 in both the train and the test table, the matrix of the one fit holds
  the value 100 of the test table beside the values of the train table.
\<close>

theorem normalizer_fit_overlap_counterexample:
  "map_sum id transformer_calls
     (load_data_from_folder example_collaborators example_train None overlapping_test example_options
        (Names [''c'']) (Some ''ohe'') ''quantile_normal'')
   = Inr [Fit [[Num 1], [Num 100], [Num 4], [Num 4]],
          Transform [[Num 1], [Num 100], [Num 4], [Num 4]],
          Transform [[Num 1], [Num 100]]]"
  by code_simp

text \<open>
  C4. With the one-hot scheme the three splits are processed together: after the union
  phase the scheme of the per-split pass is \<^verbatim>\<open>None\<close>, the categorical columns are one list
  of names made from the columns of the encoded union, and the columns this list selects,
  which are the feature names handed to the encoder, are the same, in content and order,
  in the train, validation and test table.
\<close>

theorem one_hot_feature_names_shared:
  assumes "fit_categorical E train_df val_df test_df cats (Some ''ohe'')
             = Inr (train1, val1, test1, cats1, enc1)"
  shows "enc1 = None
       \<and> (\<exists>names f. cats1 = Names names \<and> convert_to_func cats1 = Inr f
            \<and> get_matching_cols test1 f = get_matching_cols train1 f
            \<and> (\<forall>v. val1 = Some v \<longrightarrow> get_matching_cols v f = get_matching_cols train1 f)
            \<and> get_matching_cols train1 f = [c \<leftarrow> columns train1. c \<in> set names]
            \<and> (\<exists>cs. cats = Names cs
                 \<and> names = concat (map (\<lambda>col. concat (map (\<lambda>old_col.
                       if startswith col old_col \<and> length col > length old_col
                       then [col] else []) cs)) (columns train1))))"
proof -
  have s: "''ohe'' = ''ohe'' \<or> ''ohe'' = ''binary''" by simp
  from fit_categorical_InrD [OF assms s] obtain data_df where
    eu: "encode_union E (union_table train_df val_df test_df) cats ''ohe'' = Inr (data_df, cats1)"
    and tr: "loc data_df (index train_df) = Inr train1"
    and va: "case val_df of None \<Rightarrow> val1 = None
             | Some v \<Rightarrow> \<exists>v1. loc data_df (index v) = Inr v1 \<and> val1 = Some v1"
    and te: "loc data_df (index test_df) = Inr test1"
    and enc: "enc1 = None"
    by blast
  from encode_union_ohe_Names [OF eu] obtain cs where cs: "cats = Names cs"
    and cats1: "cats1 = Names (concat (map (\<lambda>col. concat (map (\<lambda>old_col.
                     if startswith col old_col \<and> length col > length old_col
                     then [col] else []) cs)) (columns data_df)))"
    by blast
  define names where "names = concat (map (\<lambda>col. concat (map (\<lambda>old_col.
                     if startswith col old_col \<and> length col > length old_col
                     then [col] else []) cs)) (columns data_df))"
  have names: "cats1 = Names names"
    by (simp add: cats1 names_def)
  have ctr: "columns train1 = columns data_df"
    by (rule loc_columns [OF tr])
  have cte: "columns test1 = columns data_df"
    by (rule loc_columns [OF te])
  have cva: "columns v = columns data_df" if "val1 = Some v" for v
  proof (cases val_df)
    case None
    with va that show ?thesis by simp
  next
    case (Some w)
    with va that have "loc data_df (index w) = Inr v" by auto
    then show ?thesis by (rule loc_columns)
  qed
  let ?f = "\<lambda>(df::table) x. x \<in> set names"
  have 1: "convert_to_func cats1 = Inr ?f"
    by (simp add: names)
  have 2: "get_matching_cols test1 ?f = get_matching_cols train1 ?f"
    unfolding get_matching_cols_def ctr cte ..
  have 3: "\<forall>v. val1 = Some v \<longrightarrow> get_matching_cols v ?f = get_matching_cols train1 ?f"
  proof (intro allI impI)
    fix v assume "val1 = Some v"
    from cva [OF this] show "get_matching_cols v ?f = get_matching_cols train1 ?f"
      unfolding get_matching_cols_def ctr by simp
  qed
  have 4: "get_matching_cols train1 ?f = [c \<leftarrow> columns train1. c \<in> set names]"
    by (simp add: get_matching_cols_def)
  have 5: "\<exists>cs. cats = Names cs
                 \<and> names = concat (map (\<lambda>col. concat (map (\<lambda>old_col.
                       if startswith col old_col \<and> length col > length old_col
                       then [col] else []) cs)) (columns train1))"
    using cs by (simp add: names_def ctr)
  have "\<exists>f. cats1 = Names names \<and> convert_to_func cats1 = Inr f
            \<and> get_matching_cols test1 f = get_matching_cols train1 f
            \<and> (\<forall>v. val1 = Some v \<longrightarrow> get_matching_cols v f = get_matching_cols train1 f)
            \<and> get_matching_cols train1 f = [c \<leftarrow> columns train1. c \<in> set names]
            \<and> (\<exists>cs. cats = Names cs
                 \<and> names = concat (map (\<lambda>col. concat (map (\<lambda>old_col.
                       if startswith col old_col \<and> length col > length old_col
                       then [col] else []) cs)) (columns train1)))"
    using names 1 2 3 4 5 by (intro exI [of _ ?f] conjI)
  then show ?thesis
    using enc by (intro conjI exI [of _ names])
qed

theorem one_hot_feature_names_shared_witness:
  "get_matching_cols example_test_ohe (\<lambda>df x. x \<in> set [''c_a'', ''c_b'', ''c_z'', ''c_nan''])
     = [''c_a'', ''c_b'', ''c_z'', ''c_nan'']
   \<and> get_matching_cols example_train_ohe (\<lambda>df x. x \<in> set [''c_a'', ''c_b'', ''c_z'', ''c_nan''])
     = [''c_a'', ''c_b'', ''c_z'', ''c_nan'']"
proof -
  from one_hot_feature_names_shared [OF example_fit_categorical]
  obtain names f where
    n: "Names [''c_a'', ''c_b'', ''c_z'', ''c_nan''] = Names names"
    and f: "convert_to_func (Names [''c_a'', ''c_b'', ''c_z'', ''c_nan'']) = Inr f"
    and eq: "get_matching_cols example_test_ohe f = get_matching_cols example_train_ohe f"
    and tr: "get_matching_cols example_train_ohe f = [c \<leftarrow> columns example_train_ohe. c \<in> set names]"
    by blast
  from f have f': "f = (\<lambda>df x. x \<in> set [''c_a'', ''c_b'', ''c_z'', ''c_nan''])"
    by auto
  from n tr have "get_matching_cols example_train_ohe f = [''c_a'', ''c_b'', ''c_z'', ''c_nan'']"
    by (auto simp: example_train_ohe_def)
  with eq show ?thesis
    unfolding f' by simp
qed

text \<open>
  C5. Whatever table \<^verbatim>\<open>load_num_feats\<close> is given (train, validation or test), as soon as a
  column matches it returns a matrix with one row per row of the table; in the table it
  leaves behind, a missing value of a selected numeric column is replaced by the median
  of that column in the very table being processed and every other value is kept; and
  the matrix returned for fitting or transforming holds that median at each missing value.
\<close>

theorem numeric_imputation_own_median:
  assumes "i < length (rows df)"
    and "k < length (get_matching_cols df num_bool_func)"
    and "col_pos (columns df) (get_matching_cols df num_bool_func ! k) = Some j"
    and "j < length (snd (rows df ! i))"
    and "\<not> list_ex is_str (column_values df j)"
  shows "cell_at (snd (rows (fst (load_num_feats df num_bool_func)) ! i)) j =
           (if cell_at (snd (rows df ! i)) j = NaN
            then median (numbers_of (column_values df j))
            else cell_at (snd (rows df ! i)) j)
         \<and> (\<exists>m. snd (load_num_feats df num_bool_func) = Some m
              \<and> length m = length (rows df)
              \<and> (cell_at (snd (rows df ! i)) j = NaN \<longrightarrow>
                    m ! i ! k = median (numbers_of (column_values df j))))"
proof -
  let ?cs = "get_matching_cols df num_bool_func"
  let ?df' = "fst (load_num_feats df num_bool_func)"
  have df': "?df' = fillna_median df ?cs"
    by (rule load_num_feats_fst)
  have ne: "?cs \<noteq> []"
    using assms(2) by auto
  then have m: "snd (load_num_feats df num_bool_func) = Some (values_named ?df' ?cs)"
    by (simp add: load_num_feats_def Let_def)
  have pos: "j < length (columns df)" "columns df ! j = ?cs ! k"
    using col_pos_Some [OF assms(3)] by simp_all
  have sel: "selected df ?cs j"
    using pos assms(2) by (simp add: selected_def)
  have cell: "cell_at (snd (rows ?df' ! i)) j =
      fillna_cell (column_median (column_values df j)) (cell_at (snd (rows df ! i)) j)"
    using cell_at_fillna_median [OF assms(1) assms(4), of ?cs] sel by (simp add: df')
  have imputed: "cell_at (snd (rows ?df' ! i)) j =
           (if cell_at (snd (rows df ! i)) j = NaN
            then median (numbers_of (column_values df j))
            else cell_at (snd (rows df ! i)) j)"
    using cell assms(5) by (simp add: fillna_cell_def column_median_def)
  have "values_named ?df' ?cs ! i ! k = lookup_cell (columns ?df') (snd (rows ?df' ! i)) (?cs ! k)"
    using assms(1,2) by (simp add: values_named_nth)
  also have "\<dots> = cell_at (snd (rows ?df' ! i)) j"
    using assms(3) by (simp add: lookup_cell_pos)
  finally have mk: "values_named ?df' ?cs ! i ! k = cell_at (snd (rows ?df' ! i)) j" .
  have len: "length (values_named ?df' ?cs) = length (rows df)"
    by (simp add: values_named_def)
  have "snd (load_num_feats df num_bool_func) = Some (values_named ?df' ?cs)
        \<and> length (values_named ?df' ?cs) = length (rows df)
        \<and> (cell_at (snd (rows df ! i)) j = NaN \<longrightarrow>
              values_named ?df' ?cs ! i ! k = median (numbers_of (column_values df j)))"
    using m len mk imputed by simp
  then have "\<exists>m. snd (load_num_feats df num_bool_func) = Some m
              \<and> length m = length (rows df)
              \<and> (cell_at (snd (rows df ! i)) j = NaN \<longrightarrow>
                    m ! i ! k = median (numbers_of (column_values df j)))"
    by (rule exI)
  with imputed show ?thesis by (rule conjI)
qed

theorem numeric_imputation_own_median_witness:
  "cell_at (snd (rows example_train ! 1)) 2 = NaN
   \<and> median (numbers_of (column_values example_train 2)) = Num (5 / 2)
   \<and> cell_at (snd (rows (fst (load_num_feats example_train is_n)) ! 1)) 2 = Num (5 / 2)
   \<and> (\<exists>m. snd (load_num_feats example_train is_n) = Some m \<and> m ! 1 ! 0 = Num (5 / 2))"
proof -
  have h2: "1 < length (rows example_train)"
    by (simp add: example_train_def)
  have h3: "0 < length (get_matching_cols example_train is_n)"
    by (simp add: example_train_def get_matching_cols_def is_n_def)
  have h4: "col_pos (columns example_train) (get_matching_cols example_train is_n ! 0) = Some 2"
    by (simp add: example_train_def get_matching_cols_def is_n_def)
  have h5: "2 < length (snd (rows example_train ! 1))"
    by (simp add: example_train_def)
  have h6: "\<not> list_ex is_str (column_values example_train 2)"
    by (simp add: example_train_def column_values_def cell_at_def is_str_def)
  have nan: "cell_at (snd (rows example_train ! 1)) 2 = NaN"
    by (simp add: example_train_def cell_at_def)
  have med: "median (numbers_of (column_values example_train 2)) = Num (5 / 2)"
    by (simp add: example_train_def column_values_def cell_at_def numbers_of_def median_def)
  note t = numeric_imputation_own_median [OF h2 h3 h4 h5 h6]
  have a: "cell_at (snd (rows (fst (load_num_feats example_train is_n)) ! 1)) 2 = Num (5 / 2)"
    using t nan med by simp
  from t obtain m where "snd (load_num_feats example_train is_n) = Some m"
    and "cell_at (snd (rows example_train ! 1)) 2 = NaN \<longrightarrow>
           m ! 1 ! 0 = median (numbers_of (column_values example_train 2))"
    by blast
  with nan med have "\<exists>m. snd (load_num_feats example_train is_n) = Some m \<and> m ! 1 ! 0 = Num (5 / 2)"
    by auto
  with nan med a show ?thesis by (intro conjI)
qed

text \<open>
  C6. Text aggregation of the row values \<^verbatim>\<open>["nan", "hello", "None"]\<close> with the empty
  values \<^verbatim>\<open>{"nan", "None"}\<close> and the separator \<^verbatim>\<open>|\<close>: without a replacement text the
  joined string is \<^verbatim>\<open>hello\<close>, and with the replacement \<^verbatim>\<open>MISSING\<close> it is
  \<^verbatim>\<open>MISSING | hello | MISSING\<close>; the separator is padded by one space on each side.
\<close>

theorem text_aggregation_example:
  "join_texts ''|''
     (agg_text_columns_func str [''nan'', ''None''] None
        [Str ''nan'', Str ''hello'', Str ''None'']) = ''hello''
   \<and> join_texts ''|''
     (agg_text_columns_func str [''nan'', ''None''] (Some ''MISSING'')
        [Str ''nan'', Str ''hello'', Str ''None'']) = ''MISSING | hello | MISSING''"
  by (simp add: join_texts_def agg_text_columns_func_def)

text \<open>
  C7 (amended). Column-predicate resolution: a \<^verbatim>\<open>None\<close> spec selects no column; a
  predicate that is a plain function is used as it is; and a spec that is neither
  \<^verbatim>\<open>None\<close>, a plain function, nor a list or set (a callable object that is not a plain
  function included) is an AssertionError, with which \<^verbatim>\<open>load_data\<close> fails whatever the
  table holds. When it fails so, the table it leaves is the one it was given, cut to 50
  rows under \<^verbatim>\<open>debug\<close>: no column of it has been changed, whereas a call that returns
  leaves and stores the table with the imputed columns.
\<close>

theorem column_spec_resolution:
  assumes "text_cols opts = bad \<or> cats = bad \<or> numerical_cols opts = bad"
    and "bad \<noteq> NoneSpec" and "\<forall>g. bad \<noteq> FuncSpec g" and "\<forall>ns. bad \<noteq> Names ns"
  shows "(\<exists>f. convert_to_func NoneSpec = Inr f \<and> get_matching_cols df f = [])
       \<and> convert_to_func (FuncSpec g) = Inr g
       \<and> convert_to_func bad = Inl AssertionError
       \<and> load_data E df opts cats enc tr = Inl AssertionError
       \<and> load_data_st E df opts cats enc tr
            = (if debug opts then df\<lparr>rows := take 50 (rows df)\<rparr> else df, Inl AssertionError)
       \<and> snd (load_data_st E df opts' cats' enc' tr') = load_data E df opts' cats' enc' tr'
       \<and> (load_data E df opts' cats' enc' tr' = Inr (ds, calls) \<longrightarrow>
            fst (load_data_st E df opts' cats' enc' tr') = ds_df ds)"
proof -
  have bad: "convert_to_func bad = Inl AssertionError"
    using assms(2-4) by (rule convert_to_func_malformed)
  have none: "\<exists>f. convert_to_func NoneSpec = Inr f \<and> get_matching_cols df f = []"
    by (simp add: get_matching_cols_def)
  have st: "load_data_st E df opts cats enc tr
            = (if debug opts then df\<lparr>rows := take 50 (rows df)\<rparr> else df, Inl AssertionError)"
  proof (cases "convert_to_func (text_cols opts)")
    case (Inl e)
    then show ?thesis
      using convert_to_func_error [OF Inl]
      by (simp add: load_data_st_def Let_def)
  next
    case tf: (Inr tf)
    show ?thesis
    proof (cases "convert_to_func cats")
      case (Inl e)
      then show ?thesis
        using convert_to_func_error [OF Inl] tf
        by (simp add: load_data_st_def Let_def)
    next
      case cf: (Inr cf)
      from assms(1) tf cf bad have "convert_to_func (numerical_cols opts) = Inl AssertionError"
        by auto
      then show ?thesis
        using tf cf by (simp add: load_data_st_def Let_def)
    qed
  qed
  have res: "load_data E df opts cats enc tr = Inl AssertionError"
    using load_data_st_result [of E df opts cats enc tr] st by simp
  have link: "snd (load_data_st E df opts' cats' enc' tr') = load_data E df opts' cats' enc' tr'"
    by (rule load_data_st_result)
  have tab: "load_data E df opts' cats' enc' tr' = Inr (ds, calls) \<longrightarrow>
            fst (load_data_st E df opts' cats' enc' tr') = ds_df ds"
    using load_data_st_table by blast
  from none bad res st link tab show ?thesis by simp
qed

theorem column_spec_resolution_witness:
  "convert_to_func Other = Inl AssertionError
   \<and> load_data example_collaborators example_train (example_options\<lparr>text_cols := Other\<rparr>)
       (Names [''c'']) None None = Inl AssertionError
   \<and> load_data_st example_collaborators example_train (example_options\<lparr>text_cols := Other\<rparr>)
       (Names [''c'']) None None = (example_train, Inl AssertionError)
   \<and> load_data_st example_collaborators example_train example_options (Names [''c'']) None None
       = (ds_df example_dataset, Inr (example_dataset, []))
   \<and> ds_df example_dataset \<noteq> example_train"
proof -
  have h1: "text_cols (example_options\<lparr>text_cols := Other\<rparr>) = Other \<or> Names [''c''] = Other
            \<or> numerical_cols (example_options\<lparr>text_cols := Other\<rparr>) = Other"
    by simp
  have h2: "Other \<noteq> NoneSpec" by simp
  have h3: "\<forall>g. Other \<noteq> FuncSpec g" by simp
  have h4: "\<forall>ns. Other \<noteq> Names ns" by simp
  note t = column_spec_resolution [OF h1 h2 h3 h4,
      of example_train is_n example_collaborators None None example_options "Names [''c'']"
         None None example_dataset "[]"]
  have d: "debug (example_options\<lparr>text_cols := Other\<rparr>) = False"
    by (simp add: example_options_def)
  have a: "convert_to_func Other = Inl AssertionError" by simp
  have b: "load_data example_collaborators example_train (example_options\<lparr>text_cols := Other\<rparr>)
       (Names [''c'']) None None = Inl AssertionError"
    using t by blast
  have "load_data_st example_collaborators example_train (example_options\<lparr>text_cols := Other\<rparr>)
       (Names [''c'']) None None
        = (if debug (example_options\<lparr>text_cols := Other\<rparr>)
           then example_train\<lparr>rows := take 50 (rows example_train)\<rparr> else example_train,
           Inl AssertionError)"
    using t by blast
  then have c: "load_data_st example_collaborators example_train
       (example_options\<lparr>text_cols := Other\<rparr>) (Names [''c'']) None None
         = (example_train, Inl AssertionError)"
    by (simp only: d if_False)
  have e1: "snd (load_data_st example_collaborators example_train example_options (Names [''c''])
              None None) = Inr (example_dataset, [])"
    using t example_load_data by simp
  have e2: "fst (load_data_st example_collaborators example_train example_options (Names [''c''])
              None None) = ds_df example_dataset"
    using t example_load_data by simp
  have e: "load_data_st example_collaborators example_train example_options (Names [''c'']) None None
       = (ds_df example_dataset, Inr (example_dataset, []))"
    using e1 e2 by (simp add: prod_eq_iff)
  have f: "ds_df example_dataset \<noteq> example_train"
    by (simp add: example_dataset_def example_train_def)
  from a b c e f show ?thesis
    by (intro conjI)
qed

text \<open>
  The claim as stated fails for a callable that is not a plain function, such as a
  \<^verbatim>\<open>functools.partial\<close> object: it is not used as it is, but rejected.
\<close>

theorem callable_object_rejected_counterexample:
  "convert_to_func (CallableObj is_n) = Inl AssertionError
   \<and> convert_to_func (CallableObj is_n) \<noteq> Inr is_n"
  by simp

text \<open>
  C8. Without a validation table, the categorical phase with the scheme one-hot or binary
  encodes the concatenation of the train and the test table only and splits it by the
  labels of these two tables; a call that returns under such a scheme has built its test
  bundle from that union; a call that returns has no validation bundle; and the call
  returns, with \<^verbatim>\<open>None\<close> as its validation bundle, whenever the two fits and the per-split
  passes of the train and the test table succeed.
\<close>

theorem missing_validation_table:
  "(s = ''ohe'' \<or> s = ''binary'' \<longrightarrow>
      fit_categorical E train_df None test_df cats (Some s)
        = ebind (encode_union E (concat_rows [train_df, test_df]) cats s) (\<lambda>(data_df, cats').
          ebind (loc data_df (index train_df)) (\<lambda>train'.
          ebind (loc data_df (index test_df)) (\<lambda>test'.
            Inr (train', None, test', cats', None)))))
   \<and> index (concat_rows [train_df, test_df]) = index train_df @ index test_df
   \<and> ((s = ''ohe'' \<or> s = ''binary'')
        \<and> load_data_from_folder E train_df None test_df opts cats (Some s) meth = Inr p \<longrightarrow>
        (\<exists>data_df cats1 train1 test1 c.
            encode_union E (concat_rows [train_df, test_df]) cats s = Inr (data_df, cats1)
          \<and> loc data_df (index train_df) = Inr train1
          \<and> loc data_df (index test_df) = Inr test1
          \<and> load_data E test1 opts cats1 None (numerical_transformer p) = Inr (test_dataset p, c)))
   \<and> (load_data_from_folder E train_df None test_df opts cats enc meth = Inr p \<longrightarrow>
        val_dataset p = None)
   \<and> (fit_categorical E train_df None test_df cats enc = Inr (train1, val1, test1, cats1, enc1)
        \<and> fit_numerical E train1 (numerical_cols opts) meth = Inr (train2, st, c0)
        \<and> load_data E train2 opts cats1 enc1 st = Inr (a, c1)
        \<and> load_data E test1 opts cats1 enc1 st = Inr (b, c2) \<longrightarrow>
        load_data_from_folder E train_df None test_df opts cats enc meth
          = Inr \<lparr>train_dataset = a, val_dataset = None, test_dataset = b,
                 numerical_transformer = st, transformer_calls = c0 @ c1 @ c2\<rparr>)"
proof (intro conjI impI)
  assume "s = ''ohe'' \<or> s = ''binary''"
  then show "fit_categorical E train_df None test_df cats (Some s)
        = ebind (encode_union E (concat_rows [train_df, test_df]) cats s) (\<lambda>(data_df, cats').
          ebind (loc data_df (index train_df)) (\<lambda>train'.
          ebind (loc data_df (index test_df)) (\<lambda>test'.
            Inr (train', None, test', cats', None))))"
    by (rule fit_categorical_no_val)
next
  show "index (concat_rows [train_df, test_df]) = index train_df @ index test_df"
    by (simp add: index_concat_rows)
next
  assume h: "(s = ''ohe'' \<or> s = ''binary'')
        \<and> load_data_from_folder E train_df None test_df opts cats (Some s) meth = Inr p"
  then have s: "s = ''ohe'' \<or> s = ''binary''"
    and ok: "load_data_from_folder E train_df None test_df opts cats (Some s) meth = Inr p"
    by simp_all
  from load_data_from_folder_InrD [OF ok] obtain train1 val1 test1 cats1 enc1 c2 where
    fc: "fit_categorical E train_df None test_df cats (Some s) = Inr (train1, val1, test1, cats1, enc1)"
    and lte: "load_data E test1 opts cats1 enc1 (numerical_transformer p) = Inr (test_dataset p, c2)"
    by blast
  from fit_categorical_InrD [OF fc s] obtain data_df where
    eu: "encode_union E (union_table train_df None test_df) cats s = Inr (data_df, cats1)"
    and tr: "loc data_df (index train_df) = Inr train1"
    and te: "loc data_df (index test_df) = Inr test1"
    and enc: "enc1 = None"
    by blast
  have "encode_union E (concat_rows [train_df, test_df]) cats s = Inr (data_df, cats1)
          \<and> loc data_df (index train_df) = Inr train1
          \<and> loc data_df (index test_df) = Inr test1
          \<and> load_data E test1 opts cats1 None (numerical_transformer p) = Inr (test_dataset p, c2)"
    using eu tr te lte enc by (simp add: union_table_None)
  then show "\<exists>data_df cats1 train1 test1 c.
            encode_union E (concat_rows [train_df, test_df]) cats s = Inr (data_df, cats1)
          \<and> loc data_df (index train_df) = Inr train1
          \<and> loc data_df (index test_df) = Inr test1
          \<and> load_data E test1 opts cats1 None (numerical_transformer p) = Inr (test_dataset p, c)"
    by blast
next
  assume ok: "load_data_from_folder E train_df None test_df opts cats enc meth = Inr p"
  from load_data_from_folder_InrD [OF ok] obtain train1 val1 test1 cats1 enc1 where
    fc: "fit_categorical E train_df None test_df cats enc = Inr (train1, val1, test1, cats1, enc1)"
    and v: "case val1 of None \<Rightarrow> val_dataset p = None | Some v \<Rightarrow> True"
    by (auto split: option.splits)
  from fit_categorical_val_None [OF fc] v show "val_dataset p = None" by simp
next
  assume h: "fit_categorical E train_df None test_df cats enc = Inr (train1, val1, test1, cats1, enc1)
        \<and> fit_numerical E train1 (numerical_cols opts) meth = Inr (train2, st, c0)
        \<and> load_data E train2 opts cats1 enc1 st = Inr (a, c1)
        \<and> load_data E test1 opts cats1 enc1 st = Inr (b, c2)"
  then have "val1 = None" using fit_categorical_val_None by blast
  with h show "load_data_from_folder E train_df None test_df opts cats enc meth
          = Inr \<lparr>train_dataset = a, val_dataset = None, test_dataset = b,
                 numerical_transformer = st, transformer_calls = c0 @ c1 @ c2\<rparr>"
    by (simp add: load_data_from_folder_def)
qed

theorem missing_validation_table_witness:
  "load_data_from_folder example_collaborators example_train None example_test example_options
     (Names [''c'']) (Some ''ohe'') ''quantile_normal'' = Inr example_prepared_ohe
   \<and> val_dataset example_prepared_ohe = None
   \<and> fit_categorical example_collaborators example_train None example_test (Names [''c''])
        (Some ''ohe'')
      = Inr (example_train_ohe, None, example_test_ohe,
             Names [''c_a'', ''c_b'', ''c_z'', ''c_nan''], None)
   \<and> index (concat_rows [example_train, example_test]) = [LInt 0, LInt 1, LInt 2, LInt 3]
   \<and> (\<exists>data_df cats1 c.
          encode_union example_collaborators (concat_rows [example_train, example_test])
            (Names [''c'']) ''ohe'' = Inr (data_df, cats1)
        \<and> loc data_df (index example_test) = Inr example_test_ohe
        \<and> load_data example_collaborators example_test_ohe example_options cats1 None
             (numerical_transformer example_prepared_ohe)
           = Inr (test_dataset example_prepared_ohe, c))"
proof -
  note t = missing_validation_table [of "''ohe''" example_collaborators example_train example_test
      "Names [''c'']" example_options "''quantile_normal''" example_prepared_ohe "Some ''ohe''"]
  note t2 = t [THEN conjunct2, THEN conjunct1]
  note t3 = t [THEN conjunct2, THEN conjunct2, THEN conjunct1]
  note t4 = t [THEN conjunct2, THEN conjunct2, THEN conjunct2, THEN conjunct1]
  have v: "val_dataset example_prepared_ohe = None"
    using t4 example_load_data_from_folder_ohe by simp
  have u: "index (concat_rows [example_train, example_test])
                  = [LInt 0, LInt 1, LInt 2, LInt 3]"
    using t2 by (simp add: index_def example_train_def example_test_def)
  have "\<exists>data_df cats1 train1 test1 c.
          encode_union example_collaborators (concat_rows [example_train, example_test])
            (Names [''c'']) ''ohe'' = Inr (data_df, cats1)
        \<and> loc data_df (index example_train) = Inr train1
        \<and> loc data_df (index example_test) = Inr test1
        \<and> load_data example_collaborators test1 example_options cats1 None
             (numerical_transformer example_prepared_ohe)
           = Inr (test_dataset example_prepared_ohe, c)"
    using t3 example_load_data_from_folder_ohe by simp
  then obtain data_df cats1 train1 test1 c where
    eu: "encode_union example_collaborators (concat_rows [example_train, example_test])
            (Names [''c'']) ''ohe'' = Inr (data_df, cats1)"
    and tr: "loc data_df (index example_train) = Inr train1"
    and te: "loc data_df (index example_test) = Inr test1"
    and ld: "load_data example_collaborators test1 example_options cats1 None
             (numerical_transformer example_prepared_ohe)
           = Inr (test_dataset example_prepared_ohe, c)"
    by blast
  have "fit_categorical example_collaborators example_train None example_test (Names [''c''])
        (Some ''ohe'') = Inr (train1, None, test1, cats1, None)"
    using eu tr te by (simp add: fit_categorical_no_val)
  with example_fit_categorical have "test1 = example_test_ohe" by simp
  with eu te ld have e: "\<exists>data_df cats1 c.
          encode_union example_collaborators (concat_rows [example_train, example_test])
            (Names [''c'']) ''ohe'' = Inr (data_df, cats1)
        \<and> loc data_df (index example_test) = Inr example_test_ohe
        \<and> load_data example_collaborators example_test_ohe example_options cats1 None
             (numerical_transformer example_prepared_ohe)
           = Inr (test_dataset example_prepared_ohe, c)"
    by blast
  from example_load_data_from_folder_ohe v example_fit_categorical u e show ?thesis
    by (intro conjI)
qed

text \<open>
  C9. The per-split pipeline needs at least one row: on a table without rows
  \<^verbatim>\<open>load_data\<close> fails with an error, whatever the options, and produces no bundle.
\<close>

theorem empty_split_fails:
  assumes "rows data_df = []"
  shows "\<exists>e. load_data E data_df opts cats enc tr = Inl e"
proof (cases "load_data E data_df opts cats enc tr")
  case (Inl e)
  then show ?thesis by blast
next
  case (Inr x)
  obtain ds calls where x: "x = (ds, calls)" by (cases x)
  from load_data_InrD [OF Inr [unfolded x]] have "rows (ds_df ds) \<noteq> []" 
    and "\<exists>nf. ds_df ds = fst (load_num_feats (if debug opts then data_df\<lparr>rows := take 50 (rows data_df)\<rparr> else data_df) nf)"
    by blast+
  with assms show ?thesis
    by (auto simp: load_num_feats_def Let_def fillna_median_def split: if_splits)
qed

theorem empty_split_fails_witness:
  "rows (example_train\<lparr>rows := []\<rparr>) = []
   \<and> (\<exists>e. load_data example_collaborators (example_train\<lparr>rows := []\<rparr>) example_options
          (Names [''c'']) None None = Inl e)"
proof -
  have h: "rows (example_train\<lparr>rows := []\<rparr>) = []" by simp
  from empty_split_fails [OF h] h show ?thesis by blast
qed

text \<open>
  C10. Loading the numerical features writes the imputed values into the table: the
  table stored in the bundle of \<^verbatim>\<open>load_data\<close> is the table after \<^verbatim>\<open>load_num_feats\<close>, and
  the train table that \<^verbatim>\<open>load_data_from_folder\<close> hands to \<^verbatim>\<open>load_data\<close> after the fit
  of the transformer is the imputed one. In the table after \<^verbatim>\<open>load_num_feats\<close> the
  columns and the labels are the same, a missing cell of a selected numeric column holds
  the median of the column, and every cell of a column that is not selected is unchanged.
\<close>

theorem imputed_table_stored:
  assumes "convert_to_func (numerical_cols opts) = Inr f"
    and "i < length (rows d)" and "j < length (snd (rows d ! i))"
  shows "(load_data E data_df opts cats enc tr = Inr (ds, calls) \<longrightarrow>
            ds_df ds = fst (load_num_feats
               (if debug opts then data_df\<lparr>rows := take 50 (rows data_df)\<rparr> else data_df) f))
       \<and> (meth \<noteq> ''none''
            \<and> load_data_from_folder E train_df val_df test_df opts cats0 enc0 meth = Inr p
            \<and> fit_categorical E train_df val_df test_df cats0 enc0
                = Inr (train1, val1, test1, cats1, enc1) \<longrightarrow>
            (\<exists>m rest c. snd (load_num_feats train1 f) = Some m
               \<and> transformer_calls p = Fit m # rest
               \<and> load_data E (fst (load_num_feats train1 f)) opts cats1 enc1
                    (numerical_transformer p) = Inr (train_dataset p, c)))
       \<and> columns (fst (load_num_feats d f)) = columns d
       \<and> index (fst (load_num_feats d f)) = index d
       \<and> (selected d (get_matching_cols d f) j \<and> \<not> list_ex is_str (column_values d j) \<longrightarrow>
            cell_at (snd (rows (fst (load_num_feats d f)) ! i)) j =
              (if cell_at (snd (rows d ! i)) j = NaN
               then median (numbers_of (column_values d j))
               else cell_at (snd (rows d ! i)) j))
       \<and> (\<not> selected d (get_matching_cols d f) j \<longrightarrow>
            cell_at (snd (rows (fst (load_num_feats d f)) ! i)) j = cell_at (snd (rows d ! i)) j)"
proof (intro conjI impI)
  assume ok: "load_data E data_df opts cats enc tr = Inr (ds, calls)"
  from load_data_InrD [OF ok] assms(1)
  show "ds_df ds = fst (load_num_feats
          (if debug opts then data_df\<lparr>rows := take 50 (rows data_df)\<rparr> else data_df) f)"
    by auto
next
  assume h: "meth \<noteq> ''none''
      \<and> load_data_from_folder E train_df val_df test_df opts cats0 enc0 meth = Inr p
      \<and> fit_categorical E train_df val_df test_df cats0 enc0
          = Inr (train1, val1, test1, cats1, enc1)"
  from h load_data_from_folder_InrD [of E train_df val_df test_df opts cats0 enc0 meth p]
  obtain train2 c0 c1 c2 c3 where
    fn: "fit_numerical E train1 (numerical_cols opts) meth = Inr (train2, numerical_transformer p, c0)"
    and ltr: "load_data E train2 opts cats1 enc1 (numerical_transformer p) = Inr (train_dataset p, c1)"
    and calls: "transformer_calls p = c0 @ c1 @ c2 @ c3"
    by auto
  from h fit_numerical_InrD [OF fn] assms(1) obtain m where
    t2: "train2 = fst (load_num_feats train1 f)"
    and m: "snd (load_num_feats train1 f) = Some m" and c0: "c0 = [Fit m]"
    by auto
  have "snd (load_num_feats train1 f) = Some m
      \<and> transformer_calls p = Fit m # (c1 @ c2 @ c3)
      \<and> load_data E (fst (load_num_feats train1 f)) opts cats1 enc1
           (numerical_transformer p) = Inr (train_dataset p, c1)"
    using m calls c0 ltr t2 by simp
  then show "\<exists>m rest c. snd (load_num_feats train1 f) = Some m
               \<and> transformer_calls p = Fit m # rest
               \<and> load_data E (fst (load_num_feats train1 f)) opts cats1 enc1
                    (numerical_transformer p) = Inr (train_dataset p, c)"
    by blast
next
  show "columns (fst (load_num_feats d f)) = columns d"
    by simp
  show "index (fst (load_num_feats d f)) = index d"
    by (simp add: load_num_feats_fst)
next
  assume "selected d (get_matching_cols d f) j \<and> \<not> list_ex is_str (column_values d j)"
  then show "cell_at (snd (rows (fst (load_num_feats d f)) ! i)) j =
              (if cell_at (snd (rows d ! i)) j = NaN
               then median (numbers_of (column_values d j))
               else cell_at (snd (rows d ! i)) j)"
    using cell_at_fillna_median [OF assms(2,3), of "get_matching_cols d f"]
    by (simp add: load_num_feats_fst fillna_cell_def column_median_def)
next
  assume "\<not> selected d (get_matching_cols d f) j"
  then show "cell_at (snd (rows (fst (load_num_feats d f)) ! i)) j = cell_at (snd (rows d ! i)) j"
    using cell_at_fillna_median [OF assms(2,3), of "get_matching_cols d f"]
    by (simp add: load_num_feats_fst)
qed

theorem imputed_table_stored_witness:
  "load_data example_collaborators example_train example_options (Names [''c'']) None None
     = Inr (example_dataset, [])
   \<and> ds_df example_dataset = fst (load_num_feats example_train is_n)
   \<and> cell_at (snd (rows example_train ! 1)) 2 = NaN
   \<and> cell_at (snd (rows (ds_df example_dataset) ! 1)) 2 = Num (5 / 2)
   \<and> cell_at (snd (rows (ds_df example_dataset) ! 1)) 1 = Str ''b''"
proof -
  have f: "convert_to_func (numerical_cols example_options) = Inr is_n"
    by (simp add: example_options_def is_n_def fun_eq_iff)
  have i: "1 < length (rows example_train)"
    by (simp add: example_train_def)
  have j: "2 < length (snd (rows example_train ! 1))"
    by (simp add: example_train_def)
  note t = imputed_table_stored [OF f i j, of example_collaborators example_train "Names [''c'']"
      None None example_dataset "[]"]
  have d: "debug example_options = False"
    by (simp add: example_options_def)
  have a: "ds_df example_dataset = fst (load_num_feats example_train is_n)"
    using t example_load_data by (simp add: d)
  have b: "cell_at (snd (rows example_train ! 1)) 2 = NaN"
    by (simp add: example_train_def cell_at_def)
  have c: "cell_at (snd (rows (ds_df example_dataset) ! 1)) 2 = Num (5 / 2)"
    by (simp add: example_dataset_def cell_at_def)
  have e: "cell_at (snd (rows (ds_df example_dataset) ! 1)) 1 = Str ''b''"
    by (simp add: example_dataset_def cell_at_def)
  from example_load_data a b c e show ?thesis
    by (intro conjI)
qed

end
